theory Spec2Isabelle
  imports Main
begin

section \<open>Python values and exceptions\<close>

text \<open>
  Strings are lists of 8-bit characters: the development covers Python strings whose
  code points are below 256.  Exceptions are values of \<open>py_error\<close>; a function that
  may raise returns \<open>py_error + 'a\<close> with \<open>Inl\<close> for the exception.
\<close>

datatype py_error = KeyError | TypeError | IndexError | AttributeError | ValueError | OSError

text \<open>
  What \<open>json.load\<close> returns for \<open>plan.json\<close>: \<open>None\<close>, \<open>bool\<close>, \<open>int\<close>, \<open>str\<close>,
  \<open>list\<close> and \<open>dict\<close>.  A dict is an association list in insertion order, with
  string keys as JSON has them.  JSON numbers with a fraction or an exponent
  (Python \<open>float\<close>) are not represented.
\<close>

datatype jval = JNull | JBool bool | JInt int | JStr string
  | JList "jval list" | JDict "(string \<times> jval) list"

text \<open>Python's \<open>==\<close> on these values: \<open>True == 1\<close>, lists compare element by element,
  dicts compare as sets of items.\<close>

fun py_eq :: "jval \<Rightarrow> jval \<Rightarrow> bool"
  and py_eq_list :: "jval list \<Rightarrow> jval list \<Rightarrow> bool"
  and dict_sub :: "(string \<times> jval) list \<Rightarrow> (string \<times> jval) list \<Rightarrow> bool"
  and dict_has :: "string \<Rightarrow> jval \<Rightarrow> (string \<times> jval) list \<Rightarrow> bool"
where
  "py_eq JNull b = (b = JNull)"
| "py_eq (JBool a) b =
     (case b of JBool c \<Rightarrow> a = c | JInt j \<Rightarrow> of_bool a = j | _ \<Rightarrow> False)"
| "py_eq (JInt i) b =
     (case b of JBool c \<Rightarrow> i = of_bool c | JInt j \<Rightarrow> i = j | _ \<Rightarrow> False)"
| "py_eq (JStr s) b = (b = JStr s)"
| "py_eq (JList xs) b = (case b of JList ys \<Rightarrow> py_eq_list xs ys | _ \<Rightarrow> False)"
| "py_eq (JDict d) b =
     (case b of JDict e \<Rightarrow> length d = length e \<and> dict_sub d e | _ \<Rightarrow> False)"
| "py_eq_list [] ys = (ys = [])"
| "py_eq_list (x # xs) ys =
     (case ys of [] \<Rightarrow> False | y # ys' \<Rightarrow> py_eq x y \<and> py_eq_list xs ys')"
| "dict_sub [] e = True"
| "dict_sub ((k, v) # d) e = (dict_has k v e \<and> dict_sub d e)"
| "dict_has k v [] = False"
| "dict_has k v ((k', w) # e) = (if k = k' then py_eq v w else dict_has k v e)"

text \<open>Truth value of an object, as \<open>if not plan\<close> tests it.\<close>

fun py_truthy :: "jval \<Rightarrow> bool" where
  "py_truthy JNull = False"
| "py_truthy (JBool b) = b"
| "py_truthy (JInt i) = (i \<noteq> 0)"
| "py_truthy (JStr s) = (s \<noteq> [])"
| "py_truthy (JList xs) = (xs \<noteq> [])"
| "py_truthy (JDict d) = (d \<noteq> [])"

text \<open>\<open>obj[key]\<close> with a string key: only a dict has string subscripts.\<close>

fun getitem :: "jval \<Rightarrow> string \<Rightarrow> py_error + jval" where
  "getitem (JDict d) k = (case map_of d k of None \<Rightarrow> Inl KeyError | Some v \<Rightarrow> Inr v)"
| "getitem _ k = Inl TypeError"

text \<open>\<open>d[key] = value\<close> on a dict: an existing key keeps its position, a new key goes
  to the end.\<close>

fun dict_set :: "(string \<times> jval) list \<Rightarrow> string \<Rightarrow> jval \<Rightarrow> (string \<times> jval) list" where
  "dict_set [] k v = [(k, v)]"
| "dict_set ((k', w) # d) k v = (if k' = k then (k, v) # d else (k', w) # dict_set d k v)"

fun setitem :: "jval \<Rightarrow> string \<Rightarrow> jval \<Rightarrow> py_error + jval" where
  "setitem (JDict d) k v = Inr (JDict (dict_set d k v))"
| "setitem _ k v = Inl TypeError"

text \<open>The items a \<open>for\<close> loop visits: the elements of a list, the keys of a dict, the
  characters of a string.\<close>

fun py_iter :: "jval \<Rightarrow> py_error + jval list" where
  "py_iter (JList xs) = Inr xs"
| "py_iter (JDict d) = Inr (map (\<lambda>p. JStr (fst p)) d)"
| "py_iter (JStr s) = Inr (map (\<lambda>c. JStr [c]) s)"
| "py_iter _ = Inl TypeError"


section \<open>storage.py: the persisted plan\<close>

text \<open>
  The content of \<open>.ai-build/plan.json\<close> is \<open>None\<close> when the file does not exist and
  the parsed JSON value otherwise.  \<open>save_plan\<close> replaces the content, \<open>load_plan\<close>
  reads it.
\<close>

type_synonym disk = "jval option"

definition load_plan :: "disk \<Rightarrow> jval option" where
  "load_plan dk = dk"

definition save_plan :: "jval \<Rightarrow> disk \<Rightarrow> disk" where
  "save_plan plan dk = Some plan"

text \<open>
  The loop of \<open>update_step_status\<close> over the steps:
  \<^verbatim>\<open>
    for step in plan["steps"]:
        if step["id"] == step_id:
            step["status"] = status
            break
  \<close>
  It returns the visited items after the loop, or the exception that left it.
\<close>

fun update_loop :: "jval \<Rightarrow> string \<Rightarrow> jval list \<Rightarrow> py_error + jval list" where
  "update_loop step_id status [] = Inr []"
| "update_loop step_id status (step # rest) =
     (case getitem step ''id'' of
        Inl e \<Rightarrow> Inl e
      | Inr v \<Rightarrow>
          if py_eq v step_id then
            (case setitem step ''status'' (JStr status) of
               Inl e \<Rightarrow> Inl e
             | Inr step' \<Rightarrow> Inr (step' # rest))
          else
            (case update_loop step_id status rest of
               Inl e \<Rightarrow> Inl e
             | Inr rest' \<Rightarrow> Inr (step # rest')))"

text \<open>
  The steps are mutated in place, so the plan that is saved holds the updated list
  when \<open>plan["steps"]\<close> is a list.  The keys of a dict and the characters of a string
  are fresh objects: the plan is saved as it was loaded.
\<close>

definition write_back :: "jval \<Rightarrow> jval \<Rightarrow> jval list \<Rightarrow> jval" where
  "write_back plan steps items =
     (case (plan, steps) of
        (JDict p, JList _) \<Rightarrow> JDict (dict_set p ''steps'' (JList items))
      | _ \<Rightarrow> plan)"

text \<open>
  \<open>update_step_status(step_id, status)\<close>: the result is the exception that was raised,
  if any, and the content of the plan file afterwards.  An exception leaves the
  function before \<open>save_plan\<close>.
\<close>

definition update_step_status :: "jval \<Rightarrow> string \<Rightarrow> disk \<Rightarrow> py_error option \<times> disk" where
  "update_step_status step_id status dk =
     (case load_plan dk of
        None \<Rightarrow> (None, dk)
      | Some plan \<Rightarrow>
          if \<not> py_truthy plan then (None, dk)
          else
            (case getitem plan ''steps'' of
               Inl e \<Rightarrow> (Some e, dk)
             | Inr steps \<Rightarrow>
                 (case py_iter steps of
                    Inl e \<Rightarrow> (Some e, dk)
                  | Inr items \<Rightarrow>
                      (case update_loop step_id status items of
                         Inl e \<Rightarrow> (Some e, dk)
                       | Inr items' \<Rightarrow>
                           (None, save_plan (write_back plan steps items') dk)))))"


section \<open>Python strings\<close>

text \<open>\<open>str.isspace\<close> on one character, for code points below 256 (it is also what
  \<open>\s\<close> matches in a \<open>str\<close> pattern).\<close>

definition py_isspace :: "char \<Rightarrow> bool" where
  "py_isspace c =
     (let n = (of_char c :: nat)
      in (9 \<le> n \<and> n \<le> 13) \<or> (28 \<le> n \<and> n \<le> 32) \<or> n = 133 \<or> n = 160)"

definition lstrip :: "string \<Rightarrow> string" where
  "lstrip s = dropWhile py_isspace s"

definition rstrip :: "string \<Rightarrow> string" where
  "rstrip s = rev (dropWhile py_isspace (rev s))"

definition strip :: "string \<Rightarrow> string" where
  "strip s = lstrip (rstrip s)"

definition startswith :: "string \<Rightarrow> string \<Rightarrow> bool" where
  "startswith s p = (take (length p) s = p)"

definition endswith :: "string \<Rightarrow> string \<Rightarrow> bool" where
  "endswith s p = (length p \<le> length s \<and> drop (length s - length p) s = p)"


text \<open>The characters at which \<open>str.splitlines\<close> ends a line, for code points below 256:
  LF, VT, FF, CR, FS, GS, RS and NEL.  CR LF is one line end.\<close>

definition py_linebreak :: "char \<Rightarrow> bool" where
  "py_linebreak c =
     (let n = (of_char c :: nat)
      in (10 \<le> n \<and> n \<le> 13) \<or> (28 \<le> n \<and> n \<le> 30) \<or> n = 133)"

text \<open>\<open>s.splitlines(keepends=True)\<close>, with the line read so far as first argument.\<close>

fun splitlines_keep :: "string \<Rightarrow> string \<Rightarrow> string list" where
  "splitlines_keep cur [] = (if cur = [] then [] else [cur])"
| "splitlines_keep cur (c # cs) =
     (if py_linebreak c then
        (case cs of
           d # ds \<Rightarrow>
             if c = CHR 0x0D \<and> d = CHR 0x0A then (cur @ [c, d]) # splitlines_keep [] ds
             else (cur @ [c]) # splitlines_keep [] cs
         | [] \<Rightarrow> (cur @ [c]) # splitlines_keep [] cs)
      else splitlines_keep (cur @ [c]) cs)"

definition splitlines_keepends :: "string \<Rightarrow> string list" where
  "splitlines_keepends s = splitlines_keep [] s"

text \<open>\<open>s.splitlines()\<close>\<close>

fun splitlines_drop :: "string \<Rightarrow> string \<Rightarrow> string list" where
  "splitlines_drop cur [] = (if cur = [] then [] else [cur])"
| "splitlines_drop cur (c # cs) =
     (if py_linebreak c then
        (case cs of
           d # ds \<Rightarrow>
             if c = CHR 0x0D \<and> d = CHR 0x0A then cur # splitlines_drop [] ds
             else cur # splitlines_drop [] cs
         | [] \<Rightarrow> cur # splitlines_drop [] cs)
      else splitlines_drop (cur @ [c]) cs)"

definition splitlines :: "string \<Rightarrow> string list" where
  "splitlines s = splitlines_drop [] s"

text \<open>\<open>sep.join(xs)\<close>\<close>

fun join :: "string \<Rightarrow> string list \<Rightarrow> string" where
  "join sep [] = []"
| "join sep [x] = x"
| "join sep (x # y # ys) = x @ sep @ join sep (y # ys)"

text \<open>The lines a file object yields (\<open>readlines\<close>), and the lines between which
  \<open>^\<close> and \<open>$\<close> of a multi-line pattern match: a line ends after LF only.\<close>

fun nl_lines_acc :: "string \<Rightarrow> string \<Rightarrow> string list" where
  "nl_lines_acc cur [] = (if cur = [] then [] else [cur])"
| "nl_lines_acc cur (c # cs) =
     (if c = CHR 0x0A then (cur @ [c]) # nl_lines_acc [] cs else nl_lines_acc (cur @ [c]) cs)"

definition readlines :: "string \<Rightarrow> string list" where
  "readlines s = nl_lines_acc [] s"


section \<open>server.py: session state and routes\<close>

text \<open>
  The flashed texts hold characters outside the 8-bit range, so each text is a
  constructor:
  \<^item> \<open>NoActiveStepSelected\<close>: "No active step selected."
  \<^item> \<open>NoDiffFound\<close>: "No diff found (dash) generate a patch first."
  \<^item> \<open>StepApproved sid\<close>: "(check mark) Step {sid} approved."
  \<^item> \<open>StepReset step_id\<close>: "Step {step_id} reset to pending."
  \<^item> \<open>EnterGoalFirst\<close>: "Please enter a goal first."
  \<^item> \<open>OllamaAlreadyRunning\<close>: "Ollama is already running (dash) please wait."
  \<^item> \<open>AlreadyRunning\<close>: "Already running (dash) please wait."
  \<^item> \<open>NoPlanLoaded\<close>: "No plan loaded."
  \<^item> \<open>NoPendingSteps\<close>: "No pending steps."
  \<^item> \<open>NoDiffToRefine\<close>: "No diff to refine (dash) generate a patch first."
  \<^item> \<open>NoMsg\<close>: the empty string.
\<close>

datatype msg = NoMsg | NoActiveStepSelected | NoDiffFound | StepApproved jval
  | StepReset int | EnterGoalFirst | OllamaAlreadyRunning | AlreadyRunning
  | NoPlanLoaded | NoPendingSteps | NoDiffToRefine

text \<open>The progress labels of the four background operations.\<close>

datatype label = NoLabel | PlanLabel | PatchLabel jval | RefineLabel jval | RunAllLabel nat

text \<open>
  A dict of the session state, keyed by step ids.  A key is looked up by hash and
  \<open>==\<close>; a list or a dict as key raises \<open>TypeError\<close> (unhashable).
\<close>

type_synonym 'v pydict = "(jval \<times> 'v) list"

fun hashable :: "jval \<Rightarrow> bool" where
  "hashable (JList xs) = False"
| "hashable (JDict d) = False"
| "hashable _ = True"

definition pydict_get :: "'v pydict \<Rightarrow> jval \<Rightarrow> py_error + 'v option" where
  "pydict_get d k =
     (if \<not> hashable k then Inl TypeError
      else Inr (map_option snd (find (\<lambda>p. py_eq (fst p) k) d)))"

definition pydict_pop :: "'v pydict \<Rightarrow> jval \<Rightarrow> py_error + 'v pydict" where
  "pydict_pop d k =
     (if \<not> hashable k then Inl TypeError
      else Inr (filter (\<lambda>p. \<not> py_eq (fst p) k) d))"

text \<open>The module-level \<open>_state\<close> dict.  \<open>active_step_id\<close> is \<open>JNull\<close> for \<open>None\<close>; a
  review is the reviewer's dict or a string.\<close>

record state =
  goal :: string
  plan_prompt :: string
  patch_prompts :: "string pydict"
  ollama_prompts :: "string pydict"
  diffs :: "string pydict"
  refined_diffs :: "string pydict"
  reviews :: "jval pydict"
  final_prompt :: string
  active_step_id :: jval
  error :: msg
  info :: msg
  project_root :: string
  git_exists :: bool
  bg_running :: bool
  bg_label :: label
  planner_model :: string
  patcher_model :: string
  reviewer_model :: string
  refiner_model :: string

text \<open>What a worker thread was started with: the values its closure holds.\<close>

datatype job = PlanJob string | PatchJob jval | RefineJob jval string jval jval
  | RunAllJob jval "jval list"

text \<open>
  The outcome of a route: the exception that left it (the request then answers 500),
  the session state and the plan file as the route left them, and the worker thread
  it started.
\<close>

record outcome =
  raised :: "py_error option"
  new_state :: state
  new_disk :: disk
  started :: "job option"

definition flash :: "msg \<Rightarrow> msg \<Rightarrow> state \<Rightarrow> state" where
  "flash m e s = s\<lparr>info := m, error := e\<rparr>"

definition redirect :: "state \<Rightarrow> disk \<Rightarrow> outcome" where
  "redirect s dk = \<lparr>raised = None, new_state = s, new_disk = dk, started = None\<rparr>"

definition raise :: "py_error \<Rightarrow> state \<Rightarrow> disk \<Rightarrow> outcome" where
  "raise e s dk = \<lparr>raised = Some e, new_state = s, new_disk = dk, started = None\<rparr>"

definition spawn :: "job \<Rightarrow> state \<Rightarrow> disk \<Rightarrow> outcome" where
  "spawn j s dk = \<lparr>raised = None, new_state = s, new_disk = dk, started = Some j\<rparr>"

text \<open>\<open>for s in plan["steps"]: if s["id"] == sid: return s\<close>\<close>

fun find_step :: "jval \<Rightarrow> jval list \<Rightarrow> py_error + jval option" where
  "find_step sid [] = Inr None"
| "find_step sid (s # rest) =
     (case getitem s ''id'' of
        Inl e \<Rightarrow> Inl e
      | Inr v \<Rightarrow> if py_eq v sid then Inr (Some s) else find_step sid rest)"

definition active_step :: "state \<Rightarrow> disk \<Rightarrow> py_error + jval option" where
  "active_step s dk =
     (case (if project_root s \<noteq> [] then load_plan dk else None) of
        None \<Rightarrow> Inr None
      | Some plan \<Rightarrow>
          if \<not> py_truthy plan then Inr None
          else if active_step_id s = JNull then Inr None
          else
            (case getitem plan ''steps'' of
               Inl e \<Rightarrow> Inl e
             | Inr steps \<Rightarrow>
                 (case py_iter steps of
                    Inl e \<Rightarrow> Inl e
                  | Inr items \<Rightarrow> find_step (active_step_id s) items)))"

text \<open>\<open>s.get(key, default)\<close>: only a dict has the method.\<close>

fun py_get :: "jval \<Rightarrow> string \<Rightarrow> jval \<Rightarrow> py_error + jval" where
  "py_get (JDict d) k dflt = Inr (case map_of d k of None \<Rightarrow> dflt | Some v \<Rightarrow> v)"
| "py_get _ k dflt = Inl AttributeError"

text \<open>\<open>next((s for s in plan["steps"] if s.get("status", "pending") == "pending"), None)\<close>\<close>

fun next_pending :: "jval list \<Rightarrow> py_error + jval option" where
  "next_pending [] = Inr None"
| "next_pending (s # rest) =
     (case py_get s ''status'' (JStr ''pending'') of
        Inl e \<Rightarrow> Inl e
      | Inr v \<Rightarrow> if py_eq v (JStr ''pending'') then Inr (Some s) else next_pending rest)"

text \<open>\<open>[s for s in plan["steps"] if s.get("status", "pending") == "pending"]\<close>\<close>

fun pending_steps :: "jval list \<Rightarrow> py_error + jval list" where
  "pending_steps [] = Inr []"
| "pending_steps (s # rest) =
     (case py_get s ''status'' (JStr ''pending'') of
        Inl e \<Rightarrow> Inl e
      | Inr v \<Rightarrow>
          (case pending_steps rest of
             Inl e \<Rightarrow> Inl e
           | Inr ps \<Rightarrow> Inr (if py_eq v (JStr ''pending'') then s # ps else ps)))"

text \<open>
  The lines of \<open>apply_patch_route\<close> and \<open>skip_step\<close> that move the active pointer:
  \<^verbatim>\<open>
    plan = load_plan()
    if plan:
        next_step = next((s for s in plan["steps"] if ...), None)
        _state["active_step_id"] = next_step["id"] if next_step else None
    else:
        _state["active_step_id"] = None
  \<close>
\<close>

definition advance :: "disk \<Rightarrow> py_error + jval" where
  "advance dk =
     (case load_plan dk of
        None \<Rightarrow> Inr JNull
      | Some plan \<Rightarrow>
          if \<not> py_truthy plan then Inr JNull
          else
            (case getitem plan ''steps'' of
               Inl e \<Rightarrow> Inl e
             | Inr steps \<Rightarrow>
                 (case py_iter steps of
                    Inl e \<Rightarrow> Inl e
                  | Inr items \<Rightarrow>
                      (case next_pending items of
                         Inl e \<Rightarrow> Inl e
                       | Inr None \<Rightarrow> Inr JNull
                       | Inr (Some next_step) \<Rightarrow>
                           if py_truthy next_step then getitem next_step ''id''
                           else Inr JNull))))"

text \<open>\<open>_state["refined_diffs"].get(sid) or _state["diffs"].get(sid, "")\<close>\<close>

definition best_diff :: "state \<Rightarrow> jval \<Rightarrow> py_error + string" where
  "best_diff s sid =
     (case pydict_get (refined_diffs s) sid of
        Inl e \<Rightarrow> Inl e
      | Inr (Some r) \<Rightarrow>
          if r \<noteq> [] then Inr r
          else (case pydict_get (diffs s) sid of
                  Inl e \<Rightarrow> Inl e
                | Inr d \<Rightarrow> Inr (case d of None \<Rightarrow> [] | Some x \<Rightarrow> x))
      | Inr None \<Rightarrow>
          (case pydict_get (diffs s) sid of
             Inl e \<Rightarrow> Inl e
           | Inr d \<Rightarrow> Inr (case d of None \<Rightarrow> [] | Some x \<Rightarrow> x)))"

text \<open>The route \<open>/apply-patch\<close> (the Approve button).\<close>

definition apply_patch_route :: "state \<Rightarrow> disk \<Rightarrow> outcome" where
  "apply_patch_route s dk =
     (case active_step s dk of
        Inl e \<Rightarrow> raise e s dk
      | Inr None \<Rightarrow> redirect (flash NoMsg NoActiveStepSelected s) dk
      | Inr (Some step) \<Rightarrow>
          if \<not> py_truthy step then redirect (flash NoMsg NoActiveStepSelected s) dk
          else
            (case getitem step ''id'' of
               Inl e \<Rightarrow> raise e s dk
             | Inr sid \<Rightarrow>
                 (case best_diff s sid of
                    Inl e \<Rightarrow> raise e s dk
                  | Inr d \<Rightarrow>
                      if d = [] then redirect (flash NoMsg NoDiffFound s) dk
                      else
                        (case update_step_status sid ''approved'' dk of
                           (Some e, dk1) \<Rightarrow> raise e s dk1
                         | (None, dk1) \<Rightarrow>
                             (let s1 = s\<lparr>final_prompt := []\<rparr> in
                              case advance dk1 of
                                Inl e \<Rightarrow> raise e s1 dk1
                              | Inr nxt \<Rightarrow>
                                  (let s2 = s1\<lparr>active_step_id := nxt\<rparr> in
                                   case pydict_pop (diffs s2) sid of
                                     Inl e \<Rightarrow> raise e s2 dk1
                                   | Inr ds \<Rightarrow>
                                       (let s3 = s2\<lparr>diffs := ds\<rparr> in
                                        case pydict_pop (reviews s3) sid of
                                          Inl e \<Rightarrow> raise e s3 dk1
                                        | Inr rs \<Rightarrow>
                                            redirect (flash (StepApproved sid) NoMsg
                                              (s3\<lparr>reviews := rs\<rparr>)) dk1)))))))"



text \<open>
  The four routes that start a worker thread.  Each is modelled up to
  \<open>threading.Thread(target=_run, daemon=True).start()\<close>; the thread is the \<open>started\<close>
  job.  \<open>form_goal\<close> is \<open>request.form.get("goal", "")\<close>.
\<close>

definition plan_local :: "string \<Rightarrow> state \<Rightarrow> disk \<Rightarrow> outcome" where
  "plan_local form_goal s dk =
     (let g = (if strip form_goal \<noteq> [] then strip form_goal else goal s) in
      if g = [] then redirect (flash NoMsg EnterGoalFirst s) dk
      else if bg_running s then redirect (flash NoMsg OllamaAlreadyRunning s) dk
      else spawn (PlanJob g) (s\<lparr>goal := g, bg_running := True, bg_label := PlanLabel\<rparr>) dk)"

definition patch_local :: "state \<Rightarrow> disk \<Rightarrow> outcome" where
  "patch_local s dk =
     (case active_step s dk of
        Inl e \<Rightarrow> raise e s dk
      | Inr None \<Rightarrow> redirect (flash NoMsg NoActiveStepSelected s) dk
      | Inr (Some step) \<Rightarrow>
          if \<not> py_truthy step then redirect (flash NoMsg NoActiveStepSelected s) dk
          else if bg_running s then redirect (flash NoMsg OllamaAlreadyRunning s) dk
          else
            (case getitem step ''id'' of
               Inl e \<Rightarrow> raise e (s\<lparr>bg_running := True\<rparr>) dk
             | Inr sid \<Rightarrow>
                 spawn (PatchJob step)
                   (s\<lparr>bg_running := True, bg_label := PatchLabel sid\<rparr>) dk))"

definition refine_patch_route :: "state \<Rightarrow> disk \<Rightarrow> outcome" where
  "refine_patch_route s dk =
     (case active_step s dk of
        Inl e \<Rightarrow> raise e s dk
      | Inr None \<Rightarrow> redirect (flash NoMsg NoActiveStepSelected s) dk
      | Inr (Some step) \<Rightarrow>
          if \<not> py_truthy step then redirect (flash NoMsg NoActiveStepSelected s) dk
          else if bg_running s then redirect (flash NoMsg OllamaAlreadyRunning s) dk
          else
            (case getitem step ''id'' of
               Inl e \<Rightarrow> raise e s dk
             | Inr sid \<Rightarrow>
                 (case pydict_get (diffs s) sid of
                    Inl e \<Rightarrow> raise e s dk
                  | Inr d \<Rightarrow>
                      (let diff = (case d of None \<Rightarrow> [] | Some x \<Rightarrow> x) in
                       if diff = [] then redirect (flash NoMsg NoDiffToRefine s) dk
                       else
                         (case pydict_get (reviews s) sid of
                            Inl e \<Rightarrow> raise e s dk
                          | Inr r \<Rightarrow>
                              (let review = (case r of None \<Rightarrow> JStr [] | Some x \<Rightarrow> x) in
                               spawn (RefineJob sid diff step review)
                                 (s\<lparr>bg_running := True, bg_label := RefineLabel sid\<rparr>)
                                 dk))))))"

definition run_all :: "state \<Rightarrow> disk \<Rightarrow> outcome" where
  "run_all s dk =
     (case load_plan dk of
        None \<Rightarrow> redirect (flash NoMsg NoPlanLoaded s) dk
      | Some plan \<Rightarrow>
          if \<not> py_truthy plan then redirect (flash NoMsg NoPlanLoaded s) dk
          else if bg_running s then redirect (flash NoMsg AlreadyRunning s) dk
          else
            (case getitem plan ''steps'' of
               Inl e \<Rightarrow> raise e s dk
             | Inr steps \<Rightarrow>
                 (case py_iter steps of
                    Inl e \<Rightarrow> raise e s dk
                  | Inr items \<Rightarrow>
                      (case pending_steps items of
                         Inl e \<Rightarrow> raise e s dk
                       | Inr pending \<Rightarrow>
                           if pending = [] then redirect (flash NoMsg NoPendingSteps s) dk
                           else
                             spawn (RunAllJob plan pending)
                               (s\<lparr>bg_running := True,
                                  bg_label := RunAllLabel (length pending)\<rparr>) dk))))"

text \<open>The requests that ask for a background operation.\<close>

datatype bg_request = PlanLocal string | PatchLocal | RefinePatch | RunAll

fun handle :: "bg_request \<Rightarrow> state \<Rightarrow> disk \<Rightarrow> outcome" where
  "handle (PlanLocal form_goal) s dk = plan_local form_goal s dk"
| "handle PatchLocal s dk = patch_local s dk"
| "handle RefinePatch s dk = refine_patch_route s dk"
| "handle RunAll s dk = run_all s dk"

text \<open>
  The server as a transition system over the session state, the plan file and the
  worker threads that have been started and have not finished.  A route runs as one
  step.
  \<^item> \<open>boot\<close>: the module is loaded with \<open>bg_running = False\<close> and no thread.
  \<^item> \<open>request\<close>: one of the four routes above runs; the thread it starts is in flight.
  \<^item> \<open>mutate\<close>: any other route, and any assignment of a running thread before its
    \<open>finally\<close> block: none of them assigns \<open>bg_running\<close>, the rest of the state and the
    plan file may change in any way.
  \<^item> \<open>finish\<close>: a thread in flight runs its \<open>finally\<close> block
    (\<open>bg_running = False\<close>, \<open>bg_label = ""\<close>) and ends.
\<close>

inductive reachable :: "state \<Rightarrow> disk \<Rightarrow> job list \<Rightarrow> bool" where
  boot: "\<not> bg_running s \<Longrightarrow> reachable s dk []"
| request: "reachable s dk js \<Longrightarrow> handle r s dk = out \<Longrightarrow>
     reachable (new_state out) (new_disk out)
       (case started out of None \<Rightarrow> js | Some j \<Rightarrow> j # js)"
| mutate: "reachable s dk js \<Longrightarrow> bg_running s' = bg_running s \<Longrightarrow> reachable s' dk' js"
| finish: "reachable s dk js \<Longrightarrow> j \<in> set js \<Longrightarrow>
     reachable (s\<lparr>bg_running := False, bg_label := NoLabel\<rparr>) dk (remove1 j js)"

text \<open>A request is rejected: no thread is started, the plan file and the session state
  are the old ones, except that an error is flashed (or the request ends in an
  exception, with nothing changed).\<close>

definition rejected :: "state \<Rightarrow> disk \<Rightarrow> outcome \<Rightarrow> bool" where
  "rejected s dk out =
     (started out = None \<and> new_disk out = dk \<and>
      (raised out \<noteq> None \<and> new_state out = s \<or>
       raised out = None \<and> error (new_state out) \<noteq> NoMsg \<and>
         new_state out = s\<lparr>info := NoMsg, error := error (new_state out)\<rparr>))"


section \<open>git_ops.py: applying a patch\<close>

text \<open>
  The file system is a map from a path to what is there.  A path that is not mapped
  does not exist and can be created.
  \<^item> \<open>Text c\<close>: a regular file with the text \<open>c\<close>, as Python reads it in text mode
    (line ends already translated to LF); it can be read and written.
  \<^item> \<open>ReadOnly c\<close>: a regular file that can be read; opening it for writing raises
    \<open>OSError\<close>.
  \<^item> \<open>NoRead\<close>: the path exists and opening it for reading raises \<open>OSError\<close> (a
    directory, a file without read permission).
  \<^item> \<open>NoCreate\<close>: the path does not exist, and \<open>os.makedirs\<close> of its directory or
    opening it for writing raises \<open>OSError\<close>.
  \<^item> \<open>Invalid\<close>: a path that holds a NUL character: \<open>os.path.exists\<close> is false for
    it, and \<open>open\<close> raises \<open>ValueError\<close>.
  A write that fails leaves the file system as it was.
  \<open>resolve\<close> stands for \<open>os.path.normpath(os.path.join(root, rel_path))\<close>.
\<close>

datatype node = Text string | ReadOnly string | NoRead | NoCreate | Invalid

type_synonym fs = "string \<rightharpoonup> node"

text \<open>\<open>os.path.exists(path)\<close>\<close>

definition path_exists :: "fs \<Rightarrow> string \<Rightarrow> bool" where
  "path_exists fs path =
     (case fs path of
        None \<Rightarrow> False
      | Some NoCreate \<Rightarrow> False
      | Some Invalid \<Rightarrow> False
      | Some _ \<Rightarrow> True)"

text \<open>\<open>open(path, encoding="utf-8", errors="replace")\<close> and \<open>fh.read()\<close>\<close>

definition read_text :: "fs \<Rightarrow> string \<Rightarrow> py_error + string" where
  "read_text fs path =
     (case fs path of
        Some (Text c) \<Rightarrow> Inr c
      | Some (ReadOnly c) \<Rightarrow> Inr c
      | Some Invalid \<Rightarrow> Inl ValueError
      | _ \<Rightarrow> Inl OSError)"

text \<open>\<open>os.makedirs(os.path.dirname(target) or ".", exist_ok=True)\<close>,
  \<open>open(target, "w", encoding="utf-8")\<close> and \<open>fh.writelines(new_lines)\<close>\<close>

definition write_text :: "fs \<Rightarrow> string \<Rightarrow> string \<Rightarrow> py_error + fs" where
  "write_text fs path c =
     (case fs path of
        None \<Rightarrow> Inr (fs(path \<mapsto> Text c))
      | Some (Text old) \<Rightarrow> Inr (fs(path \<mapsto> Text c))
      | Some Invalid \<Rightarrow> Inl ValueError
      | Some _ \<Rightarrow> Inl OSError)"

text \<open>What \<open>\d\<close> matches in a \<open>str\<close> pattern, for code points below 256.\<close>

definition is_digit :: "char \<Rightarrow> bool" where
  "is_digit c = (let n = (of_char c :: nat) in 48 \<le> n \<and> n \<le> 57)"

text \<open>The rest of \<open>s\<close> after the literal \<open>p\<close>, when \<open>s\<close> starts with it.\<close>

definition strip_prefix :: "string \<Rightarrow> string \<Rightarrow> string option" where
  "strip_prefix p s = (if startswith s p then Some (drop (length p) s) else None)"

text \<open>The optional group \<open>(?:,\d+)?\<close>: what is left after it.  The group is taken
  when a comma and a digit follow; giving it back, or giving digits back, cannot make
  the rest of the pattern match, since a blank must follow.\<close>

definition skip_count :: "string \<Rightarrow> string" where
  "skip_count s =
     (case s of
        c # r \<Rightarrow> if c = CHR '','' \<and> takeWhile is_digit r \<noteq> [] then dropWhile is_digit r else s
      | [] \<Rightarrow> s)"

text \<open>
  A match of \<open>@@ -(\d+)(?:,\d+)? \+(\d+)(?:,\d+)? @@(.*)\<close> at the start of a line
  without line end: the two start numbers and the text after the second \<open>@@\<close>.
\<close>

definition parse_hunk_header :: "string \<Rightarrow> (string \<times> string \<times> string) option" where
  "parse_hunk_header line =
     (case strip_prefix ''@@ -'' line of
        None \<Rightarrow> None
      | Some r1 \<Rightarrow>
          if takeWhile is_digit r1 = [] then None
          else
            (case strip_prefix '' +'' (skip_count (dropWhile is_digit r1)) of
               None \<Rightarrow> None
             | Some r2 \<Rightarrow>
                 if takeWhile is_digit r2 = [] then None
                 else
                   (case strip_prefix '' @@'' (skip_count (dropWhile is_digit r2)) of
                      None \<Rightarrow> None
                    | Some tail \<Rightarrow>
                        Some (takeWhile is_digit r1, takeWhile is_digit r2, tail))))"

text \<open>The value of a string of decimal digits.\<close>

definition int_of_digits :: "string \<Rightarrow> int" where
  "int_of_digits s = foldl (\<lambda>n c. 10 * n + (int (of_char c) - 48)) 0 s"

text \<open>\<open>int(s)\<close> for a string of decimal digits: CPython (3.11 and later, and the
  security releases of 3.7 to 3.10) raises \<open>ValueError\<close> when the string has more than
  4300 digits, leading zeros counted (the default of \<open>sys.set_int_max_str_digits\<close>).\<close>

definition py_int :: "string \<Rightarrow> py_error + int" where
  "py_int s = (if length s > 4300 then Inl ValueError else Inr (int_of_digits s))"

text \<open>\<open>xs[i]\<close>: an index from \<open>-len(xs)\<close> to \<open>len(xs) - 1\<close>, the negative ones counting
  from the end; any other index raises.\<close>

definition py_index :: "'a list \<Rightarrow> int \<Rightarrow> py_error + 'a" where
  "py_index xs i =
     (if 0 \<le> i \<and> i < int (length xs) then Inr (xs ! nat i)
      else if i < 0 \<and> - int (length xs) \<le> i then Inr (xs ! nat (i + int (length xs)))
      else Inl IndexError)"

text \<open>\<open>xs[a:b]\<close> and \<open>xs[a:]\<close>: a bound is counted from the end when negative and
  clipped to the list; slicing never raises.\<close>

definition slice_bound :: "'a list \<Rightarrow> int \<Rightarrow> nat" where
  "slice_bound xs i =
     (let n = int (length xs)
      in if i < 0 then nat (max 0 (i + n)) else nat (min i n))"

definition py_slice :: "'a list \<Rightarrow> int \<Rightarrow> int \<Rightarrow> 'a list" where
  "py_slice xs a b = take (slice_bound xs b - slice_bound xs a) (drop (slice_bound xs a) xs)"

definition py_slice_from :: "'a list \<Rightarrow> int \<Rightarrow> 'a list" where
  "py_slice_from xs a = drop (slice_bound xs a) xs"

text \<open>A line without its LF, as \<open>$\<close> of a multi-line pattern sees its end.\<close>

definition chomp :: "string \<Rightarrow> string" where
  "chomp l = (if l \<noteq> [] \<and> last l = CHR 0x0A then butlast l else l)"

text \<open>
  \<open>re.split(r"(?=^diff --git |\A(?=--- ))", patch_text, flags=re.M)\<close>: the text is cut
  before every line that starts with \<open>diff --git \<close>; a cut at the very start (also
  made when the text starts with \<open>--- \<close>) gives an empty first piece.
\<close>

fun split_blocks :: "string \<Rightarrow> string list \<Rightarrow> string list" where
  "split_blocks cur [] = [cur]"
| "split_blocks cur (l # ls) =
     (if startswith l ''diff --git '' then cur # split_blocks l ls
      else split_blocks (cur @ l) ls)"

definition file_blocks :: "string \<Rightarrow> string list" where
  "file_blocks patch_text =
     (if startswith patch_text ''--- '' then [[]] else []) @
     split_blocks [] (readlines patch_text)"

text \<open>\<open>re.search(r"^\+\+\+ (?:b/)?(.+)$", block, re.M)\<close>: group 1 of the first line
  that matches.  The prefix \<open>b/\<close> is dropped unless nothing would be left.\<close>

fun plus_header :: "string list \<Rightarrow> string option" where
  "plus_header [] = None"
| "plus_header (l # ls) =
     (case strip_prefix ''+++ '' (chomp l) of
        None \<Rightarrow> plus_header ls
      | Some r \<Rightarrow>
          if r = [] then plus_header ls
          else Some (if startswith r ''b/'' \<and> length r > 2 then drop 2 r else r))"

text \<open>
  The hunks of a block:
  \<^verbatim>\<open>re.finditer(r"^@@ -(\d+)(?:,(\d+))? \+(\d+)(?:,(\d+))? @@[^\n]*\n(.*?)(?=^@@|\Z)", block, re.M | re.S)\<close>
  A hunk starts at a line that matches the header and ends in LF; its body (group 5)
  runs to the next line that starts with \<open>@@\<close>, or to the end of the block.  The
  search goes on at that line.  Of a hunk, group 1 and group 5 are kept.
\<close>

definition hunk_header_line :: "string \<Rightarrow> string option" where
  "hunk_header_line l =
     (if l \<noteq> [] \<and> last l = CHR 0x0A then
        (case parse_hunk_header (butlast l) of
           None \<Rightarrow> None
         | Some (orig_start, new_start, tail) \<Rightarrow> Some orig_start)
      else None)"

function find_hunks :: "string list \<Rightarrow> (string \<times> string) list" where
  "find_hunks [] = []"
| "find_hunks (l # ls) =
     (case hunk_header_line l of
        None \<Rightarrow> find_hunks ls
      | Some orig_start \<Rightarrow>
          (orig_start, concat (takeWhile (\<lambda>x. \<not> startswith x ''@@'') ls))
            # find_hunks (dropWhile (\<lambda>x. \<not> startswith x ''@@'') ls))"
  by pat_completeness auto
termination
  by (relation "measure length") (auto simp: less_Suc_eq_le length_dropWhile_le)

text \<open>
  The inner loop over the lines of one hunk:
  \<^verbatim>\<open>
    for hl in hunk_lines:
        if hl.startswith("+"):
            new_lines.append(hl[1:])
        elif hl.startswith("-"):
            src_pos += 1
        else:
            new_lines.append(lines[src_pos])
            src_pos += 1
  \<close>
\<close>

fun apply_hunk_lines ::
  "string list \<Rightarrow> string list \<Rightarrow> int \<Rightarrow> string list \<Rightarrow> py_error + (string list \<times> int)" where
  "apply_hunk_lines lines [] src_pos new_lines = Inr (new_lines, src_pos)"
| "apply_hunk_lines lines (hl # hls) src_pos new_lines =
     (if startswith hl ''+'' then apply_hunk_lines lines hls src_pos (new_lines @ [drop 1 hl])
      else if startswith hl ''-'' then apply_hunk_lines lines hls (src_pos + 1) new_lines
      else
        (case py_index lines src_pos of
           Inl e \<Rightarrow> Inl e
         | Inr l \<Rightarrow> apply_hunk_lines lines hls (src_pos + 1) (new_lines @ [l])))"

text \<open>
  The loop over the hunks, inside \<open>try\<close>, up to
  \<open>new_lines.extend(lines[src_pos:])\<close>:
  \<^verbatim>\<open>
    for hunk in hunks:
        src_start = int(hunk.group(1)) - 1
        hunk_lines = hunk.group(5).splitlines(keepends=True)
        new_lines.extend(lines[src_pos:src_start])
        src_pos = src_start
        ...
  \<close>
\<close>

fun apply_hunks ::
  "string list \<Rightarrow> (string \<times> string) list \<Rightarrow> int \<Rightarrow> string list \<Rightarrow> py_error + string list" where
  "apply_hunks lines [] src_pos new_lines = Inr (new_lines @ py_slice_from lines src_pos)"
| "apply_hunks lines ((g1, g5) # hunks) src_pos new_lines =
     (case py_int g1 of
        Inl e \<Rightarrow> Inl e
      | Inr n \<Rightarrow>
          (let src_start = n - 1;
               hunk_lines = splitlines_keepends g5
           in case apply_hunk_lines lines hunk_lines src_start
                     (new_lines @ py_slice lines src_pos src_start) of
                Inl e \<Rightarrow> Inl e
              | Inr (new_lines', src_pos') \<Rightarrow> apply_hunks lines hunks src_pos' new_lines'))"

text \<open>The files and the two lists \<open>applied\<close> and \<open>errors\<close> while the blocks are
  processed.  An entry of \<open>errors\<close> is the path of the text
  "{rel_path}: hunk mismatch (dash) {exc}".\<close>

record progress =
  files :: fs
  applied :: "string list"
  errors :: "string list"

text \<open>
  One turn of \<open>for block in file_blocks\<close>: \<open>Inr\<close> the lists and the files after the
  turn, \<open>Inl\<close> the exception that leaves the loop and the function.  The target is read
  before the hunks are looked for; of the exceptions of the \<open>try\<close> block only
  \<open>IndexError\<close> is caught, and reading and writing the target stand outside it.
\<close>

definition process_block ::
  "(string \<Rightarrow> string) \<Rightarrow> progress \<Rightarrow> string \<Rightarrow> py_error + progress" where
  "process_block resolve st block0 =
     (let block = strip block0 in
      if block = [] then Inr st
      else
        (case plus_header (readlines block) of
           None \<Rightarrow> Inr st
         | Some g \<Rightarrow>
             (let rel_path = strip g in
              if rel_path = ''/dev/null'' then Inr st
              else
                (let target = resolve rel_path in
                 case (if path_exists (files st) target
                       then (case read_text (files st) target of
                               Inl e \<Rightarrow> Inl e
                             | Inr content \<Rightarrow> Inr (readlines content))
                       else Inr []) of
                   Inl e \<Rightarrow> Inl e
                 | Inr lines \<Rightarrow>
                     (let hunks = find_hunks (readlines block)
                      in if hunks = [] then Inr st
                         else
                           (case apply_hunks lines hunks 0 [] of
                              Inl e \<Rightarrow>
                                if e = IndexError
                                then Inr (st\<lparr>errors := errors st @ [rel_path]\<rparr>)
                                else Inl e
                            | Inr new_lines \<Rightarrow>
                                (case write_text (files st) target (concat new_lines) of
                                   Inl e \<Rightarrow> Inl e
                                 | Inr fs' \<Rightarrow>
                                     Inr (st\<lparr>files := fs',
                                             applied := applied st @ [rel_path]\<rparr>))))))))"

text \<open>The loop over the blocks: the exception that left it, if any, and the lists and
  the files as they are then.\<close>

fun run_blocks ::
  "(string \<Rightarrow> string) \<Rightarrow> string list \<Rightarrow> progress \<Rightarrow> py_error option \<times> progress" where
  "run_blocks resolve [] st = (None, st)"
| "run_blocks resolve (block # blocks) st =
     (case process_block resolve st block of
        Inl e \<Rightarrow> (Some e, st)
      | Inr st' \<Rightarrow> run_blocks resolve blocks st')"

text \<open>
  The message of the result:
  \<^item> \<open>PatchFileNotFound\<close>: "Patch file not found: {patch_file}"
  \<^item> \<open>CannotReadPatchFile\<close>: "Cannot read patch file: {exc}"
  \<^item> \<open>GitApplied\<close>: "Patch applied successfully."
  \<^item> \<open>PatchErrors errors\<close>: "Patch errors:" and the errors, one per line
  \<^item> \<open>NoFilesChanged\<close>: "No files were changed (dash) patch may be empty or already
    applied."
  \<^item> \<open>PatchAppliedTo applied\<close>: "Patch applied to: " and the paths, separated by commas
\<close>

datatype patch_msg = PatchFileNotFound | CannotReadPatchFile | GitApplied
  | PatchErrors "string list" | NoFilesChanged | PatchAppliedTo "string list"

text \<open>\<open>_apply_patch_python(patch_file, root)\<close>: the pair \<open>(success, message)\<close> it
  returns, or the exception that leaves it, and the file system afterwards.\<close>

definition apply_patch_python ::
  "(string \<Rightarrow> string) \<Rightarrow> string \<Rightarrow> fs \<Rightarrow> (py_error + bool \<times> patch_msg) \<times> fs" where
  "apply_patch_python resolve patch_file fs =
     (case read_text fs patch_file of
        Inl exc \<Rightarrow> (Inr (False, CannotReadPatchFile), fs)
      | Inr patch_text \<Rightarrow>
          (case run_blocks resolve (file_blocks patch_text)
                  \<lparr>files = fs, applied = [], errors = []\<rparr> of
             (Some e, st) \<Rightarrow> (Inl e, files st)
           | (None, st) \<Rightarrow>
               if errors st \<noteq> [] then (Inr (False, PatchErrors (errors st)), files st)
               else if applied st = [] then (Inr (False, NoFilesChanged), files st)
               else (Inr (True, PatchAppliedTo (applied st)), files st)))"


text \<open>
  \<open>apply_patch(patch_file, root)\<close>: what \<open>git\<close> answers is a parameter.
  \<^item> \<open>GitMissing\<close>: \<open>subprocess.run\<close> raises \<open>OSError\<close> (there is no \<open>git\<close> executable, or
    \<open>root\<close> is not a directory);
  \<^item> \<open>NoRepo\<close>: \<open>root\<close> is not inside a work tree;
  \<^item> \<open>CheckFails\<close>: \<open>git apply --check\<close> fails;
  \<^item> \<open>ApplyFails\<close>: the check passes and \<open>git apply\<close> fails, leaving the tree as it was;
  \<^item> \<open>ApplySucceeds fs'\<close>: both pass and the tree is \<open>fs'\<close> afterwards.
\<close>

datatype git_env = GitMissing | NoRepo | CheckFails | ApplyFails | ApplySucceeds fs

definition apply_patch ::
  "(string \<Rightarrow> string) \<Rightarrow> git_env \<Rightarrow> string \<Rightarrow> fs \<Rightarrow> (py_error + bool \<times> patch_msg) \<times> fs" where
  "apply_patch resolve git patch_file fs =
     (if \<not> path_exists fs patch_file then (Inr (False, PatchFileNotFound), fs)
      else
        (case git of
           GitMissing \<Rightarrow> (Inl OSError, fs)
         | ApplySucceeds fs' \<Rightarrow> (Inr (True, GitApplied), fs')
         | _ \<Rightarrow> apply_patch_python resolve patch_file fs))"


section \<open>reviewer.py: parsing the review\<close>

text \<open>Decimal output of a number, as \<open>str\<close> and an f-string print it.\<close>

definition digit_char :: "nat \<Rightarrow> char" where
  "digit_char n = char_of (48 + n)"

function str_of_nat :: "nat \<Rightarrow> string" where
  "str_of_nat n = (if n < 10 then [digit_char n] else str_of_nat (n div 10) @ [digit_char (n mod 10)])"
  by pat_completeness auto
termination
  by (relation "measure id") auto

declare str_of_nat.simps [simp del]

definition str_of_int :: "int \<Rightarrow> string" where
  "str_of_int i = (if i < 0 then CHR ''-'' # str_of_nat (nat (- i)) else str_of_nat (nat i))"

text \<open>\<open>str(x)\<close>; the \<open>repr\<close> of a list or a dict is a parameter.\<close>

fun py_str :: "(jval \<Rightarrow> string) \<Rightarrow> jval \<Rightarrow> string" where
  "py_str repr JNull = ''None''"
| "py_str repr (JBool b) = (if b then ''True'' else ''False'')"
| "py_str repr (JInt i) = str_of_int i"
| "py_str repr (JStr s) = s"
| "py_str repr v = repr v"

text \<open>\<open>str.lower\<close> on one character, for code points below 256.\<close>

definition py_lower_char :: "char \<Rightarrow> char" where
  "py_lower_char c =
     (let n = (of_char c :: nat)
      in if (65 \<le> n \<and> n \<le> 90) \<or> (192 \<le> n \<and> n \<le> 222 \<and> n \<noteq> 215)
         then char_of (n + 32) else c)"

definition lower :: "string \<Rightarrow> string" where
  "lower s = map py_lower_char s"

text \<open>What \<open>\w\<close> matches in a \<open>str\<close> pattern, for code points below 256.\<close>

definition py_word_char :: "char \<Rightarrow> bool" where
  "py_word_char c =
     (let n = (of_char c :: nat)
      in (48 \<le> n \<and> n \<le> 57) \<or> (65 \<le> n \<and> n \<le> 90) \<or> n = 95 \<or> (97 \<le> n \<and> n \<le> 122)
         \<or> n = 170 \<or> n = 178 \<or> n = 179 \<or> n = 181 \<or> n = 185 \<or> n = 186
         \<or> (188 \<le> n \<and> n \<le> 190) \<or> (192 \<le> n \<and> n \<le> 214)
         \<or> (216 \<le> n \<and> n \<le> 246) \<or> (248 \<le> n \<and> n \<le> 255))"

text \<open>\<open>re.search(r"\bWORD\b", s, re.I)\<close> for a lower-case ASCII word: \<open>prev\<close> is the
  character before the current position.\<close>

fun word_search :: "string \<Rightarrow> char option \<Rightarrow> string \<Rightarrow> bool" where
  "word_search w prev [] = False"
| "word_search w prev (c # cs) =
     ((lower (take (length w) (c # cs)) = w \<and>
       (case prev of None \<Rightarrow> True | Some p \<Rightarrow> \<not> py_word_char p) \<and>
       (case drop (length w) (c # cs) of [] \<Rightarrow> True | d # ds \<Rightarrow> \<not> py_word_char d))
      \<or> word_search w (Some c) cs)"

text \<open>
  \<open>re.search(r"SUMMARY[:\s]+(.+)", s, re.I)\<close>: group 1 of the first match.  After
  \<open>summary\<close> the class \<open>[:\s]+\<close> takes the longest run it can and gives characters back
  until a character other than LF follows; the group runs to the end of that line.
\<close>

fun give_back :: "string \<Rightarrow> nat \<Rightarrow> string option" where
  "give_back r 0 = None"
| "give_back r (Suc k) =
     (case drop (Suc k) r of
        [] \<Rightarrow> give_back r k
      | d # ds \<Rightarrow>
          if d = CHR 0x0A then give_back r k
          else Some (takeWhile (\<lambda>c. c \<noteq> CHR 0x0A) (d # ds)))"

fun summary_search :: "string \<Rightarrow> string option" where
  "summary_search [] = None"
| "summary_search (c # cs) =
     (if lower (take 7 (c # cs)) = ''summary'' then
        (case give_back (drop 7 (c # cs))
                (length (takeWhile (\<lambda>x. x = CHR '':'' \<or> py_isspace x) (drop 7 (c # cs)))) of
           Some g \<Rightarrow> Some g
         | None \<Rightarrow> summary_search cs)
      else summary_search cs)"

text \<open>\<open>re.search(r"\{[\s\S]*\}", text)\<close>: from the first \<open>{\<close> to the last \<open>}\<close> after it.\<close>

definition brace_search :: "string \<Rightarrow> string option" where
  "brace_search text =
     (let t = dropWhile (\<lambda>c. c \<noteq> CHR 0x7B) text;
          m = rev (dropWhile (\<lambda>c. c \<noteq> CHR 0x7D) (rev t))
      in if m = [] then None else Some m)"

text \<open>The fence stripping that several functions share:
  \<^verbatim>\<open>
    lines = text.splitlines()
    end   = len(lines) - 1 if lines[-1].strip() == "```" else len(lines)
    text  = "\n".join(lines[1:end])
  \<close>
  for a text that starts with a fence, so that \<open>lines\<close> is not empty.\<close>

definition drop_fences :: "string \<Rightarrow> string" where
  "drop_fences text =
     (let lines = splitlines text;
          end = (if strip (last lines) = ''```'' then length lines - 1 else length lines)
      in join ''\<newline>'' (take (end - 1) (drop 1 lines)))"

text \<open>The review dict: the keys \<open>verdict\<close>, \<open>summary\<close>, \<open>issues\<close>, \<open>notes\<close> (the field
  \<open>review_notes\<close>) and \<open>raw\<close>.\<close>

record review =
  verdict :: string
  summary :: string
  issues :: "string list"
  review_notes :: string
  raw :: string

text \<open>The heuristic fallback of \<open>_parse_review\<close>.  The bullet U+2022, which the source
  also strips and tests for, is outside the 8-bit range and does not occur in a string
  here.\<close>

definition heuristic_review :: "string \<Rightarrow> py_error + review" where
  "heuristic_review raw_text =
     (let v0 = ''concerns'';
          v1 = (if word_search ''approve'' None raw_text then ''approve'' else v0);
          v2 = (if word_search ''reject'' None raw_text then ''reject'' else v1)
      in case (case summary_search raw_text of
                 Some g \<Rightarrow> Inr (strip g)
               | None \<Rightarrow>
                   (case splitlines raw_text of
                      [] \<Rightarrow> Inl IndexError
                    | l # ls \<Rightarrow> Inr (take 120 l))) of
           Inl e \<Rightarrow> Inl e
         | Inr sm \<Rightarrow>
             Inr \<lparr>verdict = v2, summary = sm,
                  issues = map (\<lambda>line. strip (dropWhile (\<lambda>c. c \<in> set ''- *'') line))
                             (filter (\<lambda>line. (startswith (strip line) ''-'' \<or>
                                               startswith (strip line) ''*'') \<and>
                                              length (strip line) > 3)
                                (splitlines raw_text)),
                  review_notes = [], raw = raw_text\<rparr>)"

text \<open>
  \<open>_parse_review(raw)\<close>.  \<open>loads\<close> is \<open>json.loads\<close>, with \<open>None\<close> for
  \<open>JSONDecodeError\<close>.  A \<open>TypeError\<close> in the JSON branch is caught and leads to the
  fallback, as a decode error does; an \<open>AttributeError\<close> is not caught.
\<close>

definition json_review ::
  "(jval \<Rightarrow> string) \<Rightarrow> string \<Rightarrow> jval \<Rightarrow> py_error + review" where
  "json_review repr raw_text data =
     (case py_get data ''verdict'' (JStr ''concerns'') of
        Inl e \<Rightarrow> Inl e
      | Inr v \<Rightarrow>
          (let vd = strip (lower (py_str repr v));
               vd' = (if vd \<in> set [''approve'', ''concerns'', ''reject''] then vd
                      else ''concerns'')
           in case py_get data ''issues'' (JList []) of
                Inl e \<Rightarrow> Inl e
              | Inr iss0 \<Rightarrow>
                  (let iss = (case iss0 of JStr x \<Rightarrow> JList [JStr x] | _ \<Rightarrow> iss0)
                   in case py_get data ''summary'' (JStr []) of
                        Inl e \<Rightarrow> Inl e
                      | Inr sm \<Rightarrow>
                          (case py_iter iss of
                             Inl e \<Rightarrow> Inl e
                           | Inr items \<Rightarrow>
                               (case py_get data ''notes'' (JStr []) of
                                  Inl e \<Rightarrow> Inl e
                                | Inr nt \<Rightarrow>
                                    Inr \<lparr>verdict = vd',
                                         summary = strip (py_str repr sm),
                                         issues = map (\<lambda>i. strip (py_str repr i))
                                                    (filter (\<lambda>i. strip (py_str repr i) \<noteq> [])
                                                       items),
                                         review_notes = strip (py_str repr nt),
                                         raw = raw_text\<rparr>)))))"

definition parse_review ::
  "(string \<Rightarrow> jval option) \<Rightarrow> (jval \<Rightarrow> string) \<Rightarrow> string \<Rightarrow> py_error + review" where
  "parse_review loads repr raw_text =
     (let text0 = strip raw_text;
          text = (if startswith text0 ''```'' then strip (drop_fences text0) else text0)
      in case brace_search text of
           None \<Rightarrow> heuristic_review raw_text
         | Some m \<Rightarrow>
             (case loads m of
                None \<Rightarrow> heuristic_review raw_text
              | Some data \<Rightarrow>
                  (case json_review repr raw_text data of
                     Inl TypeError \<Rightarrow> heuristic_review raw_text
                   | Inl e \<Rightarrow> Inl e
                   | Inr r \<Rightarrow> Inr r)))"


section \<open>local_patcher.py: extracting and sanitizing a diff\<close>

subsection \<open>\<open>_extract_diff\<close>\<close>

text \<open>\<open>line.rstrip("\n\r")\<close>\<close>

definition rstrip_nl :: "string \<Rightarrow> string" where
  "rstrip_nl s = rev (dropWhile (\<lambda>c. c = CHR 0x0A \<or> c = CHR 0x0D) (rev s))"

text \<open>A match of \<open>^(?:```+\s*)?- a/\<close>: what follows the optional fence.\<close>

definition after_fence :: "string \<Rightarrow> string" where
  "after_fence s =
     (if length (takeWhile (\<lambda>c. c = CHR 0x60) s) \<ge> 3
      then dropWhile py_isspace (dropWhile (\<lambda>c. c = CHR 0x60) s) else s)"

definition broken_header :: "string \<Rightarrow> bool" where
  "broken_header stripped =
     (startswith stripped ''- a/'' \<or> startswith (after_fence stripped) ''- a/'')"

text \<open>A match of \<open>^\+\+\+ (?:b/|/dev/null)\<close>.\<close>

definition plus_start :: "string \<Rightarrow> bool" where
  "plus_start s = (startswith s ''+++ b/'' \<or> startswith s ''+++ /dev/null'')"

text \<open>\<open>re.sub(r"^(?:```+\s*)?-\s+", "--- ", stripped)\<close> on a line that is a
  \<open>broken_header\<close>: the fence, the dash and the white space after it are replaced.\<close>

definition repair :: "string \<Rightarrow> string" where
  "repair stripped =
     (let r = (if startswith stripped ''- a/'' then stripped else after_fence stripped)
      in ''--- '' @ dropWhile py_isspace (drop 1 r))"

fun repair_lines :: "string list \<Rightarrow> string list" where
  "repair_lines [] = []"
| "repair_lines (line # rest) =
     (let stripped = rstrip_nl line;
          next_stripped = (case rest of [] \<Rightarrow> [] | n # ns \<Rightarrow> rstrip_nl n)
      in (if broken_header stripped \<and> plus_start next_stripped
          then repair stripped @ ''\<newline>'' else line) # repair_lines rest)"

text \<open>Step 2 of \<open>_extract_diff\<close>, for a text that starts with a fence after leading
  white space.\<close>

fun first_fence :: "string list \<Rightarrow> nat \<Rightarrow> nat option" where
  "first_fence [] j = None"
| "first_fence (l # ls) j =
     (if startswith (strip l) ''```'' then Some j else first_fence ls (Suc j))"

text \<open>\<open>for j in range(len(inner_lines) - 1, start, -1)\<close>: \<open>k\<close> counts the indices
  \<open>start + 1 .. start + k\<close> that are still to visit, from the highest down.\<close>

fun last_fence :: "string list \<Rightarrow> nat \<Rightarrow> nat \<Rightarrow> nat option" where
  "last_fence ls start 0 = None"
| "last_fence ls start (Suc k) =
     (if strip (ls ! (start + Suc k)) = ''```'' then Some (start + Suc k)
      else last_fence ls start k)"

definition strip_outer_fences :: "string \<Rightarrow> string" where
  "strip_outer_fences text =
     (let inner_lines = splitlines text;
          start = (case first_fence inner_lines 0 of None \<Rightarrow> 0 | Some j \<Rightarrow> j);
          end = (case last_fence inner_lines start (length inner_lines - 1 - start) of
                   None \<Rightarrow> length inner_lines | Some j \<Rightarrow> j)
      in join ''\<newline>'' (take (end - (start + 1)) (drop (start + 1) inner_lines)))"

definition prepare :: "string \<Rightarrow> string" where
  "prepare text0 =
     (let text = concat (repair_lines (splitlines_keepends text0))
      in if startswith (lstrip text) ''```'' then strip_outer_fences text else text)"

definition minus_header :: "string \<Rightarrow> bool" where
  "minus_header line =
     (let stripped = rstrip_nl line
      in startswith stripped ''--- a/'' \<or> startswith stripped ''--- /dev/null'' \<or>
         (startswith stripped ''--- '' \<and> CHR ''/'' \<in> set stripped))"

definition plus_header_line :: "string \<Rightarrow> bool" where
  "plus_header_line line =
     (let next_line = rstrip_nl line
      in startswith next_line ''+++ b/'' \<or> startswith next_line ''+++ /dev/null'' \<or>
         (startswith next_line ''+++ '' \<and> CHR ''/'' \<in> set next_line))"

fun find_header_pair :: "string list \<Rightarrow> string option" where
  "find_header_pair [] = None"
| "find_header_pair [l] = None"
| "find_header_pair (l # n # rest) =
     (if minus_header l \<and> plus_header_line n then Some (concat (l # n # rest))
      else find_header_pair (n # rest))"

definition extract_diff :: "string \<Rightarrow> string option" where
  "extract_diff text = find_header_pair (splitlines_keepends (prepare text))"

subsection \<open>\<open>_sanitize_diff\<close>\<close>

text \<open>\<open>text.replace("\r\n", "\n").replace("\r", "\n")\<close>\<close>

fun replace_crlf :: "string \<Rightarrow> string" where
  "replace_crlf [] = []"
| "replace_crlf [c] = [c]"
| "replace_crlf (c # d # r) =
     (if c = CHR 0x0D \<and> d = CHR 0x0A then CHR 0x0A # replace_crlf r
      else c # replace_crlf (d # r))"

definition replace_cr :: "string \<Rightarrow> string" where
  "replace_cr s = map (\<lambda>c. if c = CHR 0x0D then CHR 0x0A else c) s"

text \<open>The test that ends a hunk body: the next \<open>@@\<close> line or file header.\<close>

definition body_end :: "string \<Rightarrow> bool" where
  "body_end l = (startswith l ''@@'' \<or> startswith l ''--- '' \<or> startswith l ''diff '')"

definition orig_count :: "string list \<Rightarrow> nat" where
  "orig_count hunk_body =
     length (filter (\<lambda>l. startswith l '' '' \<or> startswith l ''-'') hunk_body)"

definition new_count :: "string list \<Rightarrow> nat" where
  "new_count hunk_body =
     length (filter (\<lambda>l. startswith l '' '' \<or> startswith l ''+'') hunk_body)"

text \<open>The rewritten \<open>@@\<close> line, an f-string: \<open>@@ -\<close>, the original start, a comma,
  the original count, \<open> +\<close>, the new start, a comma, the new count, \<open> @@\<close> and the
  tail.\<close>

definition format_header :: "string \<Rightarrow> nat \<Rightarrow> string \<Rightarrow> nat \<Rightarrow> string \<Rightarrow> string" where
  "format_header orig_start oc new_start nc tail =
     ''@@ -'' @ orig_start @ '','' @ str_of_nat oc @ '' +'' @ new_start @ '','' @
     str_of_nat nc @ '' @@'' @ tail"

definition fix_header :: "string \<Rightarrow> string list \<Rightarrow> string" where
  "fix_header line hunk_body =
     (case parse_hunk_header line of
        Some (orig_start, new_start, tail) \<Rightarrow>
          format_header orig_start (orig_count hunk_body) new_start (new_count hunk_body) tail
      | None \<Rightarrow> line)"

function sanitize_lines :: "string list \<Rightarrow> string list" where
  "sanitize_lines [] = []"
| "sanitize_lines (line # rest) =
     (if \<not> startswith line ''@@'' then line # sanitize_lines rest
      else
        (let hunk_body = takeWhile (\<lambda>l. \<not> body_end l) rest
         in fix_header line hunk_body # hunk_body @
            sanitize_lines (dropWhile (\<lambda>l. \<not> body_end l) rest)))"
  by pat_completeness auto
termination
  by (relation "measure length") (auto simp: less_Suc_eq_le length_dropWhile_le)

definition sanitize_diff :: "string \<Rightarrow> string" where
  "sanitize_diff text0 =
     (let text = replace_cr (replace_crlf text0);
          lines = splitlines text;
          result = join ''\<newline>'' (sanitize_lines lines)
      in if \<not> endswith result ''\<newline>'' then result @ ''\<newline>'' else result)"


section \<open>Sample data\<close>

text \<open>The session state when the module is loaded, with \<open>OLLAMA_MODEL\<close> unset.\<close>

definition initial_state :: state where
  "initial_state =
     \<lparr>goal = [], plan_prompt = [], patch_prompts = [], ollama_prompts = [], diffs = [],
      refined_diffs = [], reviews = [], final_prompt = [], active_step_id = JNull,
      error = NoMsg, info = NoMsg, project_root = [], git_exists = False,
      bg_running = False, bg_label = NoLabel, planner_model = ''gemma3:4b'',
      patcher_model = ''gemma3:4b'', reviewer_model = ''gemma3:4b'',
      refiner_model = ''gemma3:4b''\<rparr>"

text \<open>A plan of two pending steps, after \<open>SAMPLE_PLAN\<close> of \<open>test_gui.py\<close>.\<close>

definition two_step_plan :: jval where
  "two_step_plan =
     JDict [(''goal'', JStr ''Add logging support to storage module''),
            (''steps'', JList
               [JDict [(''id'', JInt 1), (''title'', JStr ''Add logging import''),
                       (''status'', JStr ''pending'')],
                JDict [(''id'', JInt 2), (''title'', JStr ''Add log calls to save functions''),
                       (''status'', JStr ''pending'')]])]"


text \<open>A plan in which step 1 has been approved.\<close>

definition approved_plan :: jval where
  "approved_plan =
     JDict [(''goal'', JStr ''Add logging support to storage module''),
            (''steps'', JList
               [JDict [(''id'', JInt 1), (''title'', JStr ''Add logging import''),
                       (''status'', JStr ''approved'')],
                JDict [(''id'', JInt 2), (''title'', JStr ''Add log calls to save functions''),
                       (''status'', JStr ''pending'')]])]"

text \<open>A diff as the patcher stores it: one hunk that adds a line after the first line
  of \<open>f\<close>.  \<open>patch_path\<close> is where \<open>save_patch\<close> writes the diff of step 1.\<close>

definition sample_diff :: string where
  "sample_diff = ''--- a/f\<newline>+++ b/f\<newline>@@ -1,1 +1,2 @@\<newline> a\<newline>+b\<newline>''"

definition patch_path :: string where
  "patch_path = ''.ai-build/patches/step-1.diff''"

text \<open>A patch of two file blocks for the one-line files \<open>A\<close> and \<open>B\<close>.  The hunk of
  \<open>A\<close> fits.  The hunk of \<open>B\<close> starts at line 5; its body is a context line and an
  added line in \<open>two_file_patch\<close>, a removed line and an added line in
  \<open>two_file_patch_removing\<close>.\<close>

definition two_file_patch :: string where
  "two_file_patch =
     ''diff --git a/A b/A\<newline>--- a/A\<newline>+++ b/A\<newline>@@ -1,1 +1,2 @@\<newline> a\<newline>+b\<newline>'' @
     ''diff --git a/B b/B\<newline>--- a/B\<newline>+++ b/B\<newline>@@ -5,1 +5,2 @@\<newline> x\<newline>+y\<newline>''"

definition two_file_patch_removing :: string where
  "two_file_patch_removing =
     ''diff --git a/A b/A\<newline>--- a/A\<newline>+++ b/A\<newline>@@ -1,1 +1,2 @@\<newline> a\<newline>+b\<newline>'' @
     ''diff --git a/B b/B\<newline>--- a/B\<newline>+++ b/B\<newline>@@ -5,1 +5,1 @@\<newline>-x\<newline>+y\<newline>''"

definition two_files :: fs where
  "two_files = [''A'' \<mapsto> Text ''a\<newline>'', ''B'' \<mapsto> Text ''x\<newline>'']"


section \<open>Properties of the persisted plan\<close>

lemma map_of_dict_set:
  "map_of (dict_set d k v) k' = (if k' = k then Some v else map_of d k')"
  by (induction d k v rule: dict_set.induct) auto

lemma dict_set_keys:
  "map_of d k \<noteq> None \<Longrightarrow> map fst (dict_set d k v) = map fst d"
  by (induction d k v rule: dict_set.induct) auto

lemma dict_set_same:
  "map_of d k = Some v \<Longrightarrow> dict_set d k v = d"
  by (induction d k v rule: dict_set.induct) (auto split: if_splits)

text \<open>The step a successful loop changes is the first whose id equals \<open>step_id\<close>.\<close>

lemma update_loop_result:
  "update_loop step_id status items = Inr items' \<Longrightarrow>
     items' = items \<and> (\<forall>j < length items. \<forall>v. getitem (items ! j) ''id'' = Inr v \<longrightarrow> \<not> py_eq v step_id)
   \<or> (\<exists>i d v. i < length items \<and> items ! i = JDict d \<and> map_of d ''id'' = Some v \<and>
          py_eq v step_id \<and>
          (\<forall>j < i. \<forall>w. getitem (items ! j) ''id'' = Inr w \<longrightarrow> \<not> py_eq w step_id) \<and>
          items' = items[i := JDict (dict_set d ''status'' (JStr status))])"
proof (induction items arbitrary: items')
  case Nil
  then show ?case by simp
next
  case (Cons step rest)
  show ?case
  proof (cases "getitem step ''id''")
    case (Inl e)
    with Cons.prems show ?thesis by simp
  next
    case (Inr v)
    then obtain d where d: "step = JDict d" "map_of d ''id'' = Some v"
      by (cases step) (auto split: option.splits)
    show ?thesis
    proof (cases "py_eq v step_id")
      case True
      with Cons.prems Inr d
      have "items' = (step # rest)[0 := JDict (dict_set d ''status'' (JStr status))]"
        by auto
      with d True have "\<exists>i d' v'. i < length (step # rest) \<and> (step # rest) ! i = JDict d' \<and>
          map_of d' ''id'' = Some v' \<and> py_eq v' step_id \<and>
          (\<forall>j < i. \<forall>w. getitem ((step # rest) ! j) ''id'' = Inr w \<longrightarrow> \<not> py_eq w step_id) \<and>
          items' = (step # rest)[i := JDict (dict_set d' ''status'' (JStr status))]"
        by (intro exI[of _ 0] exI[of _ d] exI[of _ v]) simp
      then show ?thesis by blast
    next
      case False
      with Cons.prems Inr obtain rest' where
        r: "update_loop step_id status rest = Inr rest'" and i: "items' = step # rest'"
        by (auto split: sum.splits)
      from Cons.IH[OF r] show ?thesis
      proof
        assume a: "rest' = rest \<and>
          (\<forall>j<length rest. \<forall>v. getitem (rest ! j) ''id'' = Inr v \<longrightarrow> \<not> py_eq v step_id)"
        have "\<forall>j<length (step # rest). \<forall>w. getitem ((step # rest) ! j) ''id'' = Inr w \<longrightarrow>
                \<not> py_eq w step_id"
        proof (intro allI impI)
          fix j w assume j: "j < length (step # rest)"
            and g: "getitem ((step # rest) ! j) ''id'' = Inr w"
          show "\<not> py_eq w step_id"
          proof (cases j)
            case 0
            with g Inr False show ?thesis by simp
          next
            case (Suc j')
            with j g a show ?thesis by simp
          qed
        qed
        with a i show ?thesis by simp
      next
        assume "\<exists>i d v. i < length rest \<and> rest ! i = JDict d \<and> map_of d ''id'' = Some v \<and>
          py_eq v step_id \<and>
          (\<forall>j<i. \<forall>w. getitem (rest ! j) ''id'' = Inr w \<longrightarrow> \<not> py_eq w step_id) \<and>
          rest' = rest[i := JDict (dict_set d ''status'' (JStr status))]"
        then obtain k d' v' where k: "k < length rest" "rest ! k = JDict d'"
          "map_of d' ''id'' = Some v'" "py_eq v' step_id"
          "\<forall>j<k. \<forall>w. getitem (rest ! j) ''id'' = Inr w \<longrightarrow> \<not> py_eq w step_id"
          "rest' = rest[k := JDict (dict_set d' ''status'' (JStr status))]"
          by blast
        have pre: "\<forall>j<Suc k. \<forall>w. getitem ((step # rest) ! j) ''id'' = Inr w \<longrightarrow>
                \<not> py_eq w step_id"
        proof (intro allI impI)
          fix j w assume j: "j < Suc k" and g: "getitem ((step # rest) ! j) ''id'' = Inr w"
          show "\<not> py_eq w step_id"
          proof (cases j)
            case 0
            with g Inr False show ?thesis by simp
          next
            case (Suc j')
            with j g k(5) show ?thesis by simp
          qed
        qed
        from k i pre
        have "Suc k < length (step # rest) \<and> (step # rest) ! Suc k = JDict d' \<and>
          map_of d' ''id'' = Some v' \<and> py_eq v' step_id \<and>
          (\<forall>j < Suc k. \<forall>w. getitem ((step # rest) ! j) ''id'' = Inr w \<longrightarrow> \<not> py_eq w step_id) \<and>
          items' = (step # rest)[Suc k := JDict (dict_set d' ''status'' (JStr status))]"
          by simp
        then show ?thesis by blast
      qed
    qed
  qed
qed


text \<open>
  C10.  \<open>update_step_status\<close> either leaves the plan file as it was, or the file held a
  dict whose \<open>"steps"\<close> is a list, and the new content differs from the old one only
  in that the first step whose \<open>"id"\<close> equals \<open>step_id\<close> has its \<open>"status"\<close> set
  (\<open>dict_set\<close> changes the value of that one key: \<open>map_of_dict_set\<close>,
  \<open>dict_set_keys\<close>).  The goal, the other steps and the other fields of that step
  are the old ones.  With no plan file, and with no step of that id, the content is
  unchanged.
\<close>

theorem update_step_status_frame:
  assumes "update_step_status step_id status dk = (exc, dk')"
  shows "(dk' = dk \<or>
          (\<exists>p steps i d v. exc = None \<and> dk = Some (JDict p) \<and>
             map_of p ''steps'' = Some (JList steps) \<and>
             i < length steps \<and> steps ! i = JDict d \<and> map_of d ''id'' = Some v \<and>
             py_eq v step_id \<and>
             (\<forall>j < i. \<forall>w. getitem (steps ! j) ''id'' = Inr w \<longrightarrow> \<not> py_eq w step_id) \<and>
             dk' = Some (JDict (dict_set p ''steps''
                     (JList (steps[i := JDict (dict_set d ''status'' (JStr status))]))))))
       \<and> (dk = None \<longrightarrow> dk' = None)
       \<and> ((\<forall>p steps. dk = Some (JDict p) \<longrightarrow> map_of p ''steps'' = Some (JList steps) \<longrightarrow>
              (\<forall>j < length steps. \<forall>v. getitem (steps ! j) ''id'' = Inr v \<longrightarrow>
                  \<not> py_eq v step_id)) \<longrightarrow> dk' = dk)"
proof -
  have main: "dk' = dk \<or>
          (\<exists>p steps i d v. exc = None \<and> dk = Some (JDict p) \<and>
             map_of p ''steps'' = Some (JList steps) \<and>
             i < length steps \<and> steps ! i = JDict d \<and> map_of d ''id'' = Some v \<and>
             py_eq v step_id \<and>
             (\<forall>j < i. \<forall>w. getitem (steps ! j) ''id'' = Inr w \<longrightarrow> \<not> py_eq w step_id) \<and>
             dk' = Some (JDict (dict_set p ''steps''
                     (JList (steps[i := JDict (dict_set d ''status'' (JStr status))])))))"
  proof (cases dk)
    case None
    with assms show ?thesis by (simp add: update_step_status_def load_plan_def)
  next
    case (Some plan)
    show ?thesis
    proof (cases "py_truthy plan")
      case False
      with assms Some show ?thesis by (simp add: update_step_status_def load_plan_def)
    next
      case True
      show ?thesis
      proof (cases "getitem plan ''steps''")
        case (Inl e)
        with assms Some True show ?thesis
          by (simp add: update_step_status_def load_plan_def)
      next
        case (Inr steps)
        then obtain p where p: "plan = JDict p" "map_of p ''steps'' = Some steps"
          by (cases plan) (auto split: option.splits)
        show ?thesis
        proof (cases "py_iter steps")
          case (Inl e)
          with assms Some True Inr show ?thesis
            by (simp add: update_step_status_def load_plan_def)
        next
          case items: (Inr items)
          show ?thesis
          proof (cases "update_loop step_id status items")
            case (Inl e)
            with assms Some True Inr items show ?thesis
              by (simp add: update_step_status_def load_plan_def)
          next
            case loop: (Inr items')
            from assms Some True Inr items loop
            have res: "exc = None" "dk' = Some (write_back plan steps items')"
              by (simp_all add: update_step_status_def load_plan_def save_plan_def)
            from update_loop_result[OF loop] show ?thesis
            proof
              assume same: "items' = items \<and> (\<forall>j<length items. \<forall>v.
                  getitem (items ! j) ''id'' = Inr v \<longrightarrow> \<not> py_eq v step_id)"
              have "write_back plan steps items = plan"
              proof (cases steps)
                case (JList xs)
                with items have "items = xs" by simp
                with JList p show ?thesis
                  by (simp add: write_back_def dict_set_same)
              qed (simp_all add: write_back_def p split: jval.splits)
              with res same Some show ?thesis by simp
            next
              assume "\<exists>i d v. i < length items \<and> items ! i = JDict d \<and>
                  map_of d ''id'' = Some v \<and> py_eq v step_id \<and>
                  (\<forall>j<i. \<forall>w. getitem (items ! j) ''id'' = Inr w \<longrightarrow> \<not> py_eq w step_id) \<and>
                  items' = items[i := JDict (dict_set d ''status'' (JStr status))]"
              then obtain i d v where f: "i < length items" "items ! i = JDict d"
                  "map_of d ''id'' = Some v" "py_eq v step_id"
                  "\<forall>j<i. \<forall>w. getitem (items ! j) ''id'' = Inr w \<longrightarrow> \<not> py_eq w step_id"
                  "items' = items[i := JDict (dict_set d ''status'' (JStr status))]"
                by blast
              have l: "steps = JList items"
              proof (cases steps)
                case (JList xs)
                with items show ?thesis by simp
              next
                case (JDict e)
                with items f(1,2) show ?thesis by auto
              next
                case (JStr s)
                with items f(1,2) show ?thesis by auto
              qed (use items in simp_all)
              with res p f(6)
              have "dk' = Some (JDict (dict_set p ''steps''
                     (JList (items[i := JDict (dict_set d ''status'' (JStr status))]))))"
                by (simp add: write_back_def)
              with res Some p l f show ?thesis by blast
            qed
          qed
        qed
      qed
    qed
  qed
  have none: "dk = None \<longrightarrow> dk' = None"
    using assms by (auto simp add: update_step_status_def load_plan_def)
  have nomatch: "(\<forall>p steps. dk = Some (JDict p) \<longrightarrow> map_of p ''steps'' = Some (JList steps) \<longrightarrow>
              (\<forall>j < length steps. \<forall>v. getitem (steps ! j) ''id'' = Inr v \<longrightarrow>
                  \<not> py_eq v step_id)) \<longrightarrow> dk' = dk"
  proof
    assume a: "\<forall>p steps. dk = Some (JDict p) \<longrightarrow> map_of p ''steps'' = Some (JList steps) \<longrightarrow>
              (\<forall>j < length steps. \<forall>v. getitem (steps ! j) ''id'' = Inr v \<longrightarrow>
                  \<not> py_eq v step_id)"
    from main show "dk' = dk"
    proof
      assume "\<exists>p steps i d v. exc = None \<and> dk = Some (JDict p) \<and>
             map_of p ''steps'' = Some (JList steps) \<and>
             i < length steps \<and> steps ! i = JDict d \<and> map_of d ''id'' = Some v \<and>
             py_eq v step_id \<and>
             (\<forall>j < i. \<forall>w. getitem (steps ! j) ''id'' = Inr w \<longrightarrow> \<not> py_eq w step_id) \<and>
             dk' = Some (JDict (dict_set p ''steps''
                     (JList (steps[i := JDict (dict_set d ''status'' (JStr status))]))))"
      then obtain p steps i d v where m: "dk = Some (JDict p)"
          "map_of p ''steps'' = Some (JList steps)" "i < length steps"
          "steps ! i = JDict d" "map_of d ''id'' = Some v" "py_eq v step_id"
        by blast
      from a m(1,2,3) have "\<forall>v. getitem (steps ! i) ''id'' = Inr v \<longrightarrow> \<not> py_eq v step_id"
        by blast
      with m(4,5,6) show ?thesis by simp
    qed simp
  qed
  from main none nomatch show ?thesis by blast
qed


theorem update_step_status_frame_witness:
  "update_step_status (JInt 2) ''approved''
     (Some (JDict [(''goal'', JStr ''g''),
        (''steps'', JList [JDict [(''id'', JInt 1), (''status'', JStr ''pending'')],
                           JDict [(''id'', JInt 2), (''title'', JStr ''t'')]])]))
   = (None,
      Some (JDict [(''goal'', JStr ''g''),
        (''steps'', JList [JDict [(''id'', JInt 1), (''status'', JStr ''pending'')],
                           JDict [(''id'', JInt 2), (''title'', JStr ''t''),
                                  (''status'', JStr ''approved'')]])]))
   \<and> (\<exists>p steps i d v.
         Some (JDict [(''goal'', JStr ''g''),
           (''steps'', JList [JDict [(''id'', JInt 1), (''status'', JStr ''pending'')],
                              JDict [(''id'', JInt 2), (''title'', JStr ''t'')]])])
           = Some (JDict p) \<and>
         map_of p ''steps'' = Some (JList steps) \<and>
         i < length steps \<and> steps ! i = JDict d \<and> map_of d ''id'' = Some v \<and>
         py_eq v (JInt 2) \<and>
         (\<forall>j < i. \<forall>w. getitem (steps ! j) ''id'' = Inr w \<longrightarrow> \<not> py_eq w (JInt 2)) \<and>
         Some (JDict [(''goal'', JStr ''g''),
           (''steps'', JList [JDict [(''id'', JInt 1), (''status'', JStr ''pending'')],
                              JDict [(''id'', JInt 2), (''title'', JStr ''t''),
                                     (''status'', JStr ''approved'')]])])
           = Some (JDict (dict_set p ''steps''
               (JList (steps[i := JDict (dict_set d ''status'' (JStr ''approved''))])))))"
proof -
  have h: "update_step_status (JInt 2) ''approved''
     (Some (JDict [(''goal'', JStr ''g''),
        (''steps'', JList [JDict [(''id'', JInt 1), (''status'', JStr ''pending'')],
                           JDict [(''id'', JInt 2), (''title'', JStr ''t'')]])]))
   = (None,
      Some (JDict [(''goal'', JStr ''g''),
        (''steps'', JList [JDict [(''id'', JInt 1), (''status'', JStr ''pending'')],
                           JDict [(''id'', JInt 2), (''title'', JStr ''t''),
                                  (''status'', JStr ''approved'')]])]))"
    by (simp add: update_step_status_def load_plan_def save_plan_def write_back_def)
  from update_step_status_frame[OF h] h show ?thesis
    by simp
qed


section \<open>Properties of the routes\<close>

lemma find_step_Some:
  "find_step sid items = Inr (Some step) \<Longrightarrow> \<exists>v. getitem step ''id'' = Inr v \<and> py_eq v sid"
  by (induction items) (auto split: sum.splits if_splits)

lemma active_step_Some:
  "active_step s dk = Inr (Some step) \<Longrightarrow> \<exists>v. getitem step ''id'' = Inr v \<and> py_truthy step"
proof -
  assume "active_step s dk = Inr (Some step)"
  then obtain items where "find_step (active_step_id s) items = Inr (Some step)"
    by (auto simp: active_step_def split: option.splits if_splits sum.splits)
  from find_step_Some[OF this] obtain v where v: "getitem step ''id'' = Inr v" by blast
  then have "py_truthy step" by (cases step) (auto split: option.splits)
  with v show ?thesis by blast
qed

lemma py_eq_JStr: "py_eq v (JStr x) = (v = JStr x)"
  by (cases v) auto

lemma next_pending_first:
  "next_pending items = Inr r \<Longrightarrow>
     (case r of
        None \<Rightarrow> \<forall>j < length items. py_get (items ! j) ''status'' (JStr ''pending'') \<noteq> Inr (JStr ''pending'')
      | Some st \<Rightarrow> \<exists>i < length items. items ! i = st \<and>
          py_get st ''status'' (JStr ''pending'') = Inr (JStr ''pending'') \<and>
          (\<forall>j < i. py_get (items ! j) ''status'' (JStr ''pending'') \<noteq> Inr (JStr ''pending'')))"
proof (induction items)
  case Nil
  then show ?case by simp
next
  case (Cons s rest)
  show ?case
  proof (cases "py_get s ''status'' (JStr ''pending'')")
    case (Inl e)
    with Cons.prems show ?thesis by simp
  next
    case (Inr v)
    show ?thesis
    proof (cases "v = JStr ''pending''")
      case True
      with Cons.prems Inr have "r = Some s" by (simp add: py_eq_JStr)
      with Inr True show ?thesis by auto
    next
      case False
      with Cons.prems Inr have n: "next_pending rest = Inr r" by (simp add: py_eq_JStr)
      from Inr False have h: "py_get s ''status'' (JStr ''pending'') \<noteq> Inr (JStr ''pending'')"
        by simp
      show ?thesis
      proof (cases r)
        case None
        with Cons.IH[OF n] h show ?thesis
          by (auto simp: nth_Cons split: nat.splits)
      next
        case (Some st)
        with Cons.IH[OF n] obtain i where i: "i < length rest" "rest ! i = st"
          "py_get st ''status'' (JStr ''pending'') = Inr (JStr ''pending'')"
          "\<forall>j<i. py_get (rest ! j) ''status'' (JStr ''pending'') \<noteq> Inr (JStr ''pending'')"
          by auto
        have "\<forall>j<Suc i. py_get ((s # rest) ! j) ''status'' (JStr ''pending'') \<noteq> Inr (JStr ''pending'')"
          using h i(4) by (auto simp: nth_Cons split: nat.splits)
        with i Some show ?thesis
          by (auto intro!: exI[of _ "Suc i"])
      qed
    qed
  qed
qed

lemma py_eq_refl_hashable: "hashable v \<Longrightarrow> py_eq v v"
  by (cases v) auto

lemma py_eq_trans_hashable: "hashable b \<Longrightarrow> py_eq a b \<Longrightarrow> py_eq b c \<Longrightarrow> py_eq a c"
  by (cases b; cases a; cases c) auto

lemma find_step_first:
  "find_step sid items = Inr (Some step) \<Longrightarrow>
     \<exists>i. i < length items \<and> items ! i = step \<and>
         (\<exists>v. getitem step ''id'' = Inr v \<and> py_eq v sid) \<and>
         (\<forall>j<i. \<exists>w. getitem (items ! j) ''id'' = Inr w \<and> \<not> py_eq w sid)"
proof (induction items)
  case Nil
  then show ?case by simp
next
  case (Cons x rest)
  show ?case
  proof (cases "getitem x ''id''")
    case (Inl e)
    with Cons.prems show ?thesis by simp
  next
    case (Inr v)
    show ?thesis
    proof (cases "py_eq v sid")
      case True
      with Cons.prems Inr have "x = step" by simp
      with Inr True have "0 < length (x # rest) \<and> (x # rest) ! 0 = step \<and>
         (\<exists>v. getitem step ''id'' = Inr v \<and> py_eq v sid) \<and>
         (\<forall>j<0. \<exists>w. getitem ((x # rest) ! j) ''id'' = Inr w \<and> \<not> py_eq w sid)"
        by simp
      then show ?thesis by blast
    next
      case False
      with Cons.prems Inr have "find_step sid rest = Inr (Some step)" by simp
      from Cons.IH[OF this] obtain i where i: "i < length rest" "rest ! i = step"
        "\<exists>v. getitem step ''id'' = Inr v \<and> py_eq v sid"
        "\<forall>j<i. \<exists>w. getitem (rest ! j) ''id'' = Inr w \<and> \<not> py_eq w sid"
        by blast
      have "\<forall>j<Suc i. \<exists>w. getitem ((x # rest) ! j) ''id'' = Inr w \<and> \<not> py_eq w sid"
      proof (intro allI impI)
        fix j assume "j < Suc i"
        then show "\<exists>w. getitem ((x # rest) ! j) ''id'' = Inr w \<and> \<not> py_eq w sid"
          using Inr False i(4) by (cases j) auto
      qed
      with i have "Suc i < length (x # rest) \<and> (x # rest) ! Suc i = step \<and>
         (\<exists>v. getitem step ''id'' = Inr v \<and> py_eq v sid) \<and>
         (\<forall>j<Suc i. \<exists>w. getitem ((x # rest) ! j) ''id'' = Inr w \<and> \<not> py_eq w sid)"
        by simp
      then show ?thesis by blast
    qed
  qed
qed

text \<open>When \<open>_active_step()\<close> returns a step, the plan file holds a dict whose
  \<open>"steps"\<close> is a list, and the step is the first of the list whose id equals the
  active pointer.\<close>

lemma active_step_plan:
  assumes "active_step s dk = Inr (Some step)"
  shows "\<exists>p items i entries v.
           dk = Some (JDict p) \<and> map_of p ''steps'' = Some (JList items) \<and>
           i < length items \<and> items ! i = step \<and> step = JDict entries \<and>
           map_of entries ''id'' = Some v \<and> py_eq v (active_step_id s) \<and>
           (\<forall>j<i. \<exists>w. getitem (items ! j) ''id'' = Inr w \<and> \<not> py_eq w (active_step_id s))"
proof -
  from assms obtain plan steps items where
    dk: "dk = Some plan" and g: "getitem plan ''steps'' = Inr steps"
    and it: "py_iter steps = Inr items"
    and f: "find_step (active_step_id s) items = Inr (Some step)"
    by (auto simp: active_step_def load_plan_def split: option.splits if_splits sum.splits)
  from g obtain p where p: "plan = JDict p" "map_of p ''steps'' = Some steps"
    by (cases plan) (auto split: option.splits)
  from find_step_first[OF f] obtain i v where i: "i < length items" "items ! i = step"
    "getitem step ''id'' = Inr v" "py_eq v (active_step_id s)"
    "\<forall>j<i. \<exists>w. getitem (items ! j) ''id'' = Inr w \<and> \<not> py_eq w (active_step_id s)"
    by blast
  from i(3) obtain entries where entries: "step = JDict entries" "map_of entries ''id'' = Some v"
    by (cases step) (auto split: option.splits)
  have l: "steps = JList items"
  proof (cases steps)
    case (JList xs)
    with it show ?thesis by simp
  next
    case (JDict e)
    with it i(1,2) entries(1) show ?thesis by auto
  next
    case (JStr x)
    with it i(1,2) entries(1) show ?thesis by auto
  qed (use it in simp_all)
  from dk p l i entries show ?thesis by blast
qed

text \<open>The loop of \<open>update_step_status\<close> when step \<open>i\<close> is the first whose id equals
  \<open>step_id\<close> and every earlier step has an id.\<close>

lemma update_loop_first:
  "i < length items \<Longrightarrow> items ! i = JDict entries \<Longrightarrow> map_of entries ''id'' = Some v \<Longrightarrow>
   py_eq v step_id \<Longrightarrow>
   (\<forall>j<i. \<exists>w. getitem (items ! j) ''id'' = Inr w \<and> \<not> py_eq w step_id) \<Longrightarrow>
   update_loop step_id status items
     = Inr (items[i := JDict (dict_set entries ''status'' (JStr status))])"
proof (induction items arbitrary: i)
  case Nil
  then show ?case by simp
next
  case (Cons x rest)
  show ?case
  proof (cases i)
    case 0
    with Cons.prems show ?thesis by simp
  next
    case (Suc k)
    from Cons.prems(5) Suc obtain w where w: "getitem x ''id'' = Inr w" "\<not> py_eq w step_id"
      by fastforce
    from Cons.prems(5) Suc
    have "\<forall>j<k. \<exists>w. getitem (rest ! j) ''id'' = Inr w \<and> \<not> py_eq w step_id" by fastforce
    with Cons.IH[of k] Cons.prems(1-4) Suc
    have "update_loop step_id status rest
            = Inr (rest[k := JDict (dict_set entries ''status'' (JStr status))])" by simp
    with w Suc show ?thesis by simp
  qed
qed

lemma update_step_status_first:
  assumes "dk = Some (JDict p)" and "map_of p ''steps'' = Some (JList items)"
    and "i < length items" and "items ! i = JDict entries"
    and "map_of entries ''id'' = Some v" and "py_eq v step_id"
    and "\<forall>j<i. \<exists>w. getitem (items ! j) ''id'' = Inr w \<and> \<not> py_eq w step_id"
  shows "update_step_status step_id status dk
     = (None, Some (JDict (dict_set p ''steps''
          (JList (items[i := JDict (dict_set entries ''status'' (JStr status))])))))"
proof -
  from assms(2) have "p \<noteq> []" by auto
  with assms(1,2) update_loop_first[OF assms(3-7), of status] show ?thesis
    by (simp add: update_step_status_def load_plan_def save_plan_def write_back_def)
qed

text \<open>The pointer that \<open>apply_patch_route\<close> computes from a plan file that holds a dict
  whose \<open>"steps"\<close> is a list: \<open>None\<close> when no step is pending, and else the id of the
  first pending step (\<open>None\<close> when that step is the empty dict, which is falsy).\<close>

lemma advance_steps:
  assumes "map_of p ''steps'' = Some (JList items)"
    and "advance (Some (JDict p)) = Inr nxt"
  shows "(\<forall>j<length items.
            py_get (items ! j) ''status'' (JStr ''pending'') \<noteq> Inr (JStr ''pending'')) \<and>
         nxt = JNull
       \<or> (\<exists>k<length items.
            py_get (items ! k) ''status'' (JStr ''pending'') = Inr (JStr ''pending'') \<and>
            (\<forall>j<k. py_get (items ! j) ''status'' (JStr ''pending'') \<noteq> Inr (JStr ''pending'')) \<and>
            (if items ! k = JDict [] then nxt = JNull
             else getitem (items ! k) ''id'' = Inr nxt))"
proof -
  from assms(1) have ne: "p \<noteq> []" by auto
  from assms ne obtain r where r: "next_pending items = Inr r"
    by (auto simp: advance_def load_plan_def split: sum.splits)
  show ?thesis
  proof (cases r)
    case None
    with assms ne r have "nxt = JNull" by (simp add: advance_def load_plan_def)
    with next_pending_first[OF r] None show ?thesis by simp
  next
    case (Some st)
    with next_pending_first[OF r] obtain k where k: "k < length items" "items ! k = st"
      "py_get st ''status'' (JStr ''pending'') = Inr (JStr ''pending'')"
      "\<forall>j<k. py_get (items ! j) ''status'' (JStr ''pending'') \<noteq> Inr (JStr ''pending'')"
      by auto
    from k(3) obtain d where d: "st = JDict d" by (cases st) auto
    have "if items ! k = JDict [] then nxt = JNull else getitem (items ! k) ''id'' = Inr nxt"
      using assms ne r Some k(2) d by (auto simp: advance_def load_plan_def)
    with k show ?thesis by blast
  qed
qed

text \<open>
  C1 (as amended).  Approve on an active step for which a non-empty refined diff or a
  non-empty draft diff is stored never runs the patch applier: the outcome depends on
  the session state and the plan file only.  The plan file held a dict whose
  \<open>"steps"\<close> is a list, and the active step is the first step of the list whose id
  equals \<open>sid\<close>, which equals the active pointer.
  \<^item> The plan file afterwards is the old one with the status of that step set to
    \<open>"approved"\<close>, also when the request then ends in an exception.
  \<^item> When the request does not end in an exception, the final prompt is cleared, the
    draft diff and the review stored for \<open>sid\<close> are dropped, the refined diff stays,
    and the active pointer is \<open>None\<close> when no step of the new plan is pending (a missing
    status counts as pending) and else the id of the first pending step in plan order
    (\<open>None\<close> when that step is the empty dict).
\<close>

theorem approve_commits_without_apply:
  assumes "active_step s dk = Inr (Some step)"
    and "getitem step ''id'' = Inr sid"
    and "pydict_get (refined_diffs s) sid = Inr refined"
    and "pydict_get (diffs s) sid = Inr draft"
    and "(\<exists>d. refined = Some d \<and> d \<noteq> []) \<or> (\<exists>d. draft = Some d \<and> d \<noteq> [])"
  shows "\<exists>p items i entries.
      dk = Some (JDict p) \<and> map_of p ''steps'' = Some (JList items) \<and>
      i < length items \<and> items ! i = step \<and> step = JDict entries \<and>
      py_eq sid (active_step_id s) \<and>
      (\<forall>j<i. \<forall>w. getitem (items ! j) ''id'' = Inr w \<longrightarrow> \<not> py_eq w sid) \<and>
      (let items' = items[i := JDict (dict_set entries ''status'' (JStr ''approved''))]
       in new_disk (apply_patch_route s dk)
            = Some (JDict (dict_set p ''steps'' (JList items'))) \<and>
          started (apply_patch_route s dk) = None \<and>
          (raised (apply_patch_route s dk) = None \<longrightarrow>
             (\<exists>nxt.
                new_state (apply_patch_route s dk)
                  = s\<lparr>final_prompt := [], active_step_id := nxt,
                       diffs := filter (\<lambda>e. \<not> py_eq (fst e) sid) (diffs s),
                       reviews := filter (\<lambda>e. \<not> py_eq (fst e) sid) (reviews s),
                       info := StepApproved sid, error := NoMsg\<rparr> \<and>
                ((\<forall>j<length items'.
                     py_get (items' ! j) ''status'' (JStr ''pending'')
                       \<noteq> Inr (JStr ''pending'')) \<and>
                  nxt = JNull
                 \<or> (\<exists>k<length items'.
                      py_get (items' ! k) ''status'' (JStr ''pending'')
                        = Inr (JStr ''pending'') \<and>
                      (\<forall>j<k. py_get (items' ! j) ''status'' (JStr ''pending'')
                                \<noteq> Inr (JStr ''pending'')) \<and>
                      (if items' ! k = JDict [] then nxt = JNull
                       else getitem (items' ! k) ''id'' = Inr nxt))))))"
proof -
  from active_step_plan[OF assms(1)] obtain p items i entries v where
    pl: "dk = Some (JDict p)" "map_of p ''steps'' = Some (JList items)"
        "i < length items" "items ! i = step" "step = JDict entries"
        "map_of entries ''id'' = Some v" "py_eq v (active_step_id s)"
        "\<forall>j<i. \<exists>w. getitem (items ! j) ''id'' = Inr w \<and> \<not> py_eq w (active_step_id s)"
    by blast
  from pl(5,6) assms(2) have v: "v = sid" by simp
  from assms(3) have h: "hashable sid" by (auto simp: pydict_get_def split: if_splits)
  have "\<exists>d. best_diff s sid = Inr d \<and> d \<noteq> []"
  proof (cases "\<exists>x. refined = Some x \<and> x \<noteq> []")
    case True
    then obtain x where "refined = Some x" "x \<noteq> []" by blast
    with assms(3) show ?thesis by (simp add: best_diff_def)
  next
    case False
    with assms(5) obtain x where x: "draft = Some x" "x \<noteq> []" by blast
    from False have "refined = None \<or> refined = Some []" by (cases refined) auto
    with assms(3,4) x show ?thesis by (auto simp: best_diff_def)
  qed
  then obtain d where bd: "best_diff s sid = Inr d" "d \<noteq> []" by blast
  have first: "\<forall>j<i. \<exists>w. getitem (items ! j) ''id'' = Inr w \<and> \<not> py_eq w sid"
  proof (intro allI impI)
    fix j assume "j < i"
    with pl(8) obtain w where w: "getitem (items ! j) ''id'' = Inr w"
      "\<not> py_eq w (active_step_id s)" by blast
    from w(2) pl(7) v h have "\<not> py_eq w sid" using py_eq_trans_hashable by blast
    with w(1) show "\<exists>w. getitem (items ! j) ''id'' = Inr w \<and> \<not> py_eq w sid" by blast
  qed
  then have first': "\<forall>j<i. \<forall>w. getitem (items ! j) ''id'' = Inr w \<longrightarrow> \<not> py_eq w sid"
    by fastforce
  define items' where "items' = items[i := JDict (dict_set entries ''status'' (JStr ''approved''))]"
  define p' where "p' = dict_set p ''steps'' (JList items')"
  from pl(4,5) have it: "items ! i = JDict entries" by simp
  from py_eq_refl_hashable[OF h] v have vv: "py_eq v sid" by simp
  have u: "update_step_status sid ''approved'' dk = (None, Some (JDict p'))"
    unfolding p'_def items'_def
    by (rule update_step_status_first[OF pl(1,2,3) it pl(6) vv first])
  have m: "map_of p' ''steps'' = Some (JList items')"
    by (simp add: p'_def map_of_dict_set)
  have t: "py_truthy step" using pl(5,6) by auto
  have pd: "pydict_pop (diffs s) sid = Inr (filter (\<lambda>e. \<not> py_eq (fst e) sid) (diffs s))"
    and pr: "pydict_pop (reviews s) sid = Inr (filter (\<lambda>e. \<not> py_eq (fst e) sid) (reviews s))"
    using h by (simp_all add: pydict_pop_def)
  have disk: "new_disk (apply_patch_route s dk) = Some (JDict p')"
    using assms(1,2) bd t u pd pr
    by (simp add: apply_patch_route_def raise_def redirect_def Let_def split: sum.splits)
  have st: "started (apply_patch_route s dk) = None"
    using assms(1,2) bd t u pd pr
    by (simp add: apply_patch_route_def raise_def redirect_def Let_def split: sum.splits)
  have ok: "raised (apply_patch_route s dk) = None \<longrightarrow>
             (\<exists>nxt.
                new_state (apply_patch_route s dk)
                  = s\<lparr>final_prompt := [], active_step_id := nxt,
                       diffs := filter (\<lambda>e. \<not> py_eq (fst e) sid) (diffs s),
                       reviews := filter (\<lambda>e. \<not> py_eq (fst e) sid) (reviews s),
                       info := StepApproved sid, error := NoMsg\<rparr> \<and>
                ((\<forall>j<length items'.
                     py_get (items' ! j) ''status'' (JStr ''pending'')
                       \<noteq> Inr (JStr ''pending'')) \<and>
                  nxt = JNull
                 \<or> (\<exists>k<length items'.
                      py_get (items' ! k) ''status'' (JStr ''pending'')
                        = Inr (JStr ''pending'') \<and>
                      (\<forall>j<k. py_get (items' ! j) ''status'' (JStr ''pending'')
                                \<noteq> Inr (JStr ''pending'')) \<and>
                      (if items' ! k = JDict [] then nxt = JNull
                       else getitem (items' ! k) ''id'' = Inr nxt))))"
  proof
    assume r: "raised (apply_patch_route s dk) = None"
    obtain nxt where a: "advance (Some (JDict p')) = Inr nxt"
    proof (cases "advance (Some (JDict p'))")
      case (Inl e)
      with assms(1,2) bd t u r show ?thesis by (simp add: apply_patch_route_def raise_def)
    qed simp
    have "new_state (apply_patch_route s dk)
                  = s\<lparr>final_prompt := [], active_step_id := nxt,
                       diffs := filter (\<lambda>e. \<not> py_eq (fst e) sid) (diffs s),
                       reviews := filter (\<lambda>e. \<not> py_eq (fst e) sid) (reviews s),
                       info := StepApproved sid, error := NoMsg\<rparr>"
      using assms(1,2) bd t u a pd pr by (simp add: apply_patch_route_def redirect_def flash_def)
    with advance_steps[OF m a] show "\<exists>nxt.
                new_state (apply_patch_route s dk)
                  = s\<lparr>final_prompt := [], active_step_id := nxt,
                       diffs := filter (\<lambda>e. \<not> py_eq (fst e) sid) (diffs s),
                       reviews := filter (\<lambda>e. \<not> py_eq (fst e) sid) (reviews s),
                       info := StepApproved sid, error := NoMsg\<rparr> \<and>
                ((\<forall>j<length items'.
                     py_get (items' ! j) ''status'' (JStr ''pending'')
                       \<noteq> Inr (JStr ''pending'')) \<and>
                  nxt = JNull
                 \<or> (\<exists>k<length items'.
                      py_get (items' ! k) ''status'' (JStr ''pending'')
                        = Inr (JStr ''pending'') \<and>
                      (\<forall>j<k. py_get (items' ! j) ''status'' (JStr ''pending'')
                                \<noteq> Inr (JStr ''pending'')) \<and>
                      (if items' ! k = JDict [] then nxt = JNull
                       else getitem (items' ! k) ''id'' = Inr nxt)))"
      by blast
  qed
  from disk st ok have "let items' = items[i := JDict (dict_set entries ''status'' (JStr ''approved''))]
       in new_disk (apply_patch_route s dk)
            = Some (JDict (dict_set p ''steps'' (JList items'))) \<and>
          started (apply_patch_route s dk) = None \<and>
          (raised (apply_patch_route s dk) = None \<longrightarrow>
             (\<exists>nxt.
                new_state (apply_patch_route s dk)
                  = s\<lparr>final_prompt := [], active_step_id := nxt,
                       diffs := filter (\<lambda>e. \<not> py_eq (fst e) sid) (diffs s),
                       reviews := filter (\<lambda>e. \<not> py_eq (fst e) sid) (reviews s),
                       info := StepApproved sid, error := NoMsg\<rparr> \<and>
                ((\<forall>j<length items'.
                     py_get (items' ! j) ''status'' (JStr ''pending'')
                       \<noteq> Inr (JStr ''pending'')) \<and>
                  nxt = JNull
                 \<or> (\<exists>k<length items'.
                      py_get (items' ! k) ''status'' (JStr ''pending'')
                        = Inr (JStr ''pending'') \<and>
                      (\<forall>j<k. py_get (items' ! j) ''status'' (JStr ''pending'')
                                \<noteq> Inr (JStr ''pending'')) \<and>
                      (if items' ! k = JDict [] then nxt = JNull
                       else getitem (items' ! k) ''id'' = Inr nxt)))))"
    unfolding Let_def items'_def[symmetric] p'_def[symmetric] by blast
  with pl(1-5,7) v first' show ?thesis by blast
qed

theorem approve_commits_without_apply_witness:
  "apply_patch_route
        (initial_state\<lparr>project_root := ''/p'', active_step_id := JInt 1,
                        diffs := [(JInt 1, sample_diff)]\<rparr>)
        (Some two_step_plan) =
     \<lparr>raised = None,
      new_state = initial_state\<lparr>project_root := ''/p'', active_step_id := JInt 2,
                     info := StepApproved (JInt 1)\<rparr>,
      new_disk = Some approved_plan,
      started = None\<rparr>"
proof -
  let ?s = "initial_state\<lparr>project_root := ''/p'', active_step_id := JInt 1,
                        diffs := [(JInt 1, sample_diff)]\<rparr>"
  let ?step1 = "JDict [(''id'', JInt 1), (''title'', JStr ''Add logging import''),
                       (''status'', JStr ''pending'')]"
  let ?step2 = "JDict [(''id'', JInt 2), (''title'', JStr ''Add log calls to save functions''),
                       (''status'', JStr ''pending'')]"
  let ?out = "apply_patch_route ?s (Some two_step_plan)"
  have 1: "active_step ?s (Some two_step_plan) = Inr (Some ?step1)"
    by (simp add: active_step_def initial_state_def two_step_plan_def load_plan_def)
  have 2: "getitem ?step1 ''id'' = Inr (JInt 1)" by simp
  have 3: "pydict_get (refined_diffs ?s) (JInt 1) = Inr None"
    by (simp add: pydict_get_def initial_state_def)
  have 4: "pydict_get (diffs ?s) (JInt 1) = Inr (Some sample_diff)"
    by (simp add: pydict_get_def initial_state_def)
  have 6: "(\<exists>d. None = Some d \<and> d \<noteq> []) \<or> (\<exists>d. Some sample_diff = Some d \<and> d \<noteq> [])"
    by (simp add: sample_diff_def)
  have 5: "raised ?out = None"
    by (simp add: apply_patch_route_def active_step_def initial_state_def two_step_plan_def
          load_plan_def best_diff_def pydict_get_def sample_diff_def update_step_status_def
          save_plan_def write_back_def advance_def pydict_pop_def redirect_def flash_def)
  from approve_commits_without_apply[OF 1 2 3 4 6] obtain p items i entries where
    a: "Some two_step_plan = Some (JDict p)" "map_of p ''steps'' = Some (JList items)"
       "i < length items" "items ! i = ?step1" "?step1 = JDict entries"
    and b: "let items' = items[i := JDict (dict_set entries ''status'' (JStr ''approved''))]
       in new_disk ?out = Some (JDict (dict_set p ''steps'' (JList items'))) \<and>
          started ?out = None \<and>
          (raised ?out = None \<longrightarrow>
             (\<exists>nxt.
                new_state ?out
                  = ?s\<lparr>final_prompt := [], active_step_id := nxt,
                       diffs := filter (\<lambda>e. \<not> py_eq (fst e) (JInt 1)) (diffs ?s),
                       reviews := filter (\<lambda>e. \<not> py_eq (fst e) (JInt 1)) (reviews ?s),
                       info := StepApproved (JInt 1), error := NoMsg\<rparr> \<and>
                ((\<forall>j<length items'.
                     py_get (items' ! j) ''status'' (JStr ''pending'')
                       \<noteq> Inr (JStr ''pending'')) \<and>
                  nxt = JNull
                 \<or> (\<exists>k<length items'.
                      py_get (items' ! k) ''status'' (JStr ''pending'')
                        = Inr (JStr ''pending'') \<and>
                      (\<forall>j<k. py_get (items' ! j) ''status'' (JStr ''pending'')
                                \<noteq> Inr (JStr ''pending'')) \<and>
                      (if items' ! k = JDict [] then nxt = JNull
                       else getitem (items' ! k) ''id'' = Inr nxt)))))"
    by blast
  from a(1) have p: "p = [(''goal'', JStr ''Add logging support to storage module''),
                          (''steps'', JList [?step1, ?step2])]"
    by (simp add: two_step_plan_def)
  from a(2) p have items: "items = [?step1, ?step2]" by simp
  from a(5) have entries: "entries = [(''id'', JInt 1), (''title'', JStr ''Add logging import''),
                       (''status'', JStr ''pending'')]" by simp
  from a(3,4) items have i: "i = 0" by (cases i) auto
  let ?items' = "[JDict [(''id'', JInt 1), (''title'', JStr ''Add logging import''),
                       (''status'', JStr ''approved'')], ?step2]"
  have it: "items[i := JDict (dict_set entries ''status'' (JStr ''approved''))] = ?items'"
    by (simp add: items i entries)
  from b have disk: "new_disk ?out = Some approved_plan"
    unfolding Let_def it by (simp add: p approved_plan_def)
  from b have st: "started ?out = None" unfolding Let_def by simp
  from b 5 obtain nxt where
    ns: "new_state ?out
           = ?s\<lparr>final_prompt := [], active_step_id := nxt,
                diffs := filter (\<lambda>e. \<not> py_eq (fst e) (JInt 1)) (diffs ?s),
                reviews := filter (\<lambda>e. \<not> py_eq (fst e) (JInt 1)) (reviews ?s),
                info := StepApproved (JInt 1), error := NoMsg\<rparr>"
    and c: "(\<forall>j<length ?items'.
                     py_get (?items' ! j) ''status'' (JStr ''pending'')
                       \<noteq> Inr (JStr ''pending'')) \<and>
                  nxt = JNull
                 \<or> (\<exists>k<length ?items'.
                      py_get (?items' ! k) ''status'' (JStr ''pending'')
                        = Inr (JStr ''pending'') \<and>
                      (\<forall>j<k. py_get (?items' ! j) ''status'' (JStr ''pending'')
                                \<noteq> Inr (JStr ''pending'')) \<and>
                      (if ?items' ! k = JDict [] then nxt = JNull
                       else getitem (?items' ! k) ''id'' = Inr nxt))"
    unfolding Let_def it by blast
  have p0: "py_get (?items' ! 0) ''status'' (JStr ''pending'') \<noteq> Inr (JStr ''pending'')"
    and p1: "py_get (?items' ! 1) ''status'' (JStr ''pending'') = Inr (JStr ''pending'')"
    by simp_all
  have nxt: "nxt = JInt 2"
    using c
  proof
    assume "(\<forall>j<length ?items'.
                     py_get (?items' ! j) ''status'' (JStr ''pending'')
                       \<noteq> Inr (JStr ''pending'')) \<and>
                  nxt = JNull"
    then have "\<forall>j<length ?items'.
                     py_get (?items' ! j) ''status'' (JStr ''pending'')
                       \<noteq> Inr (JStr ''pending'')"
      by (rule conjunct1)
    then have "1 < length ?items' \<longrightarrow>
        py_get (?items' ! 1) ''status'' (JStr ''pending'') \<noteq> Inr (JStr ''pending'')"
      by (rule spec)
    with p1 show ?thesis by simp
  next
    assume "\<exists>k<length ?items'.
                      py_get (?items' ! k) ''status'' (JStr ''pending'')
                        = Inr (JStr ''pending'') \<and>
                      (\<forall>j<k. py_get (?items' ! j) ''status'' (JStr ''pending'')
                                \<noteq> Inr (JStr ''pending'')) \<and>
                      (if ?items' ! k = JDict [] then nxt = JNull
                       else getitem (?items' ! k) ''id'' = Inr nxt)"
    then obtain k where k: "k < length ?items'"
      "py_get (?items' ! k) ''status'' (JStr ''pending'') = Inr (JStr ''pending'')"
      "if ?items' ! k = JDict [] then nxt = JNull else getitem (?items' ! k) ''id'' = Inr nxt"
      by blast
    from k(1) have "k = 0 \<or> k = 1" by auto
    with k(2) p0 have "k = 1" by auto
    with k(3) show ?thesis by simp
  qed
  from ns nxt have ns': "new_state ?out
      = initial_state\<lparr>project_root := ''/p'', active_step_id := JInt 2,
                     info := StepApproved (JInt 1)\<rparr>"
    by (simp add: initial_state_def)
  from 5 ns' disk st show ?thesis by (cases ?out) simp
qed

text \<open>
  The claim as stated fails.  \<open>sample_diff\<close> is a diff as the patcher stores it: what
  \<open>_extract_diff\<close> and \<open>_sanitize_diff\<close> make of the model's answer.  In a project that
  has no file \<open>f\<close> the applier rejects it, whether \<open>git apply --check\<close> fails or there
  is no repository, and Approve still sets the status of the step to approved.
\<close>

theorem approve_applies_patch_counterexample:
  "map_option sanitize_diff (extract_diff (strip sample_diff)) = Some sample_diff
   \<and> fst (apply_patch id CheckFails patch_path [patch_path \<mapsto> Text sample_diff])
       = Inr (False, PatchErrors [''f''])
   \<and> fst (apply_patch id NoRepo patch_path [patch_path \<mapsto> Text sample_diff])
       = Inr (False, PatchErrors [''f''])
   \<and> new_disk (apply_patch_route
        (initial_state\<lparr>project_root := ''/p'', active_step_id := JInt 1,
                        diffs := [(JInt 1, sample_diff)]\<rparr>)
        (Some two_step_plan)) = Some approved_plan"
proof (intro conjI)
  show "map_option sanitize_diff (extract_diff (strip sample_diff)) = Some sample_diff"
    by code_simp
  show "fst (apply_patch id CheckFails patch_path [patch_path \<mapsto> Text sample_diff])
       = Inr (False, PatchErrors [''f''])"
    by code_simp
  show "fst (apply_patch id NoRepo patch_path [patch_path \<mapsto> Text sample_diff])
       = Inr (False, PatchErrors [''f''])"
    by code_simp
  show "new_disk (apply_patch_route
        (initial_state\<lparr>project_root := ''/p'', active_step_id := JInt 1,
                        diffs := [(JInt 1, sample_diff)]\<rparr>)
        (Some two_step_plan)) = Some approved_plan"
    by (simp add: apply_patch_route_def active_step_def initial_state_def two_step_plan_def
          load_plan_def best_diff_def pydict_get_def update_step_status_def save_plan_def
          write_back_def advance_def pydict_pop_def redirect_def flash_def sample_diff_def
          approved_plan_def)
qed

text \<open>
  C6.  Approve on an active step with no stored refined diff and no stored draft diff is
  answered with the error \<open>NoDiffFound\<close>; the plan file, and with it the status of the
  step, is unchanged, and so is the session state but for the flashed error.
\<close>

theorem approve_without_diff:
  assumes "active_step s dk = Inr (Some step)"
    and "getitem step ''id'' = Inr sid"
    and "pydict_get (refined_diffs s) sid = Inr None"
    and "pydict_get (diffs s) sid = Inr None"
  shows "apply_patch_route s dk =
           \<lparr>raised = None, new_state = s\<lparr>info := NoMsg, error := NoDiffFound\<rparr>,
            new_disk = dk, started = None\<rparr>"
proof -
  from active_step_Some[OF assms(1)] have t: "py_truthy step" by blast
  from assms(3,4) have b: "best_diff s sid = Inr []" by (simp add: best_diff_def)
  from assms(1,2) t b show ?thesis
    by (simp add: apply_patch_route_def redirect_def flash_def)
qed

theorem approve_without_diff_witness:
  "apply_patch_route (initial_state\<lparr>project_root := ''/p'', active_step_id := JInt 1\<rparr>)
      (Some two_step_plan) =
           \<lparr>raised = None,
            new_state = initial_state\<lparr>project_root := ''/p'', active_step_id := JInt 1,
                           info := NoMsg, error := NoDiffFound\<rparr>,
            new_disk = Some two_step_plan, started = None\<rparr>"
proof -
  have 1: "active_step (initial_state\<lparr>project_root := ''/p'', active_step_id := JInt 1\<rparr>)
      (Some two_step_plan)
    = Inr (Some (JDict [(''id'', JInt 1), (''title'', JStr ''Add logging import''),
                       (''status'', JStr ''pending'')]))"
    by (simp add: active_step_def initial_state_def two_step_plan_def load_plan_def)
  have 2: "getitem (JDict [(''id'', JInt 1), (''title'', JStr ''Add logging import''),
                       (''status'', JStr ''pending'')]) ''id'' = Inr (JInt 1)"
    by simp
  have 3: "pydict_get (refined_diffs (initial_state\<lparr>project_root := ''/p'', active_step_id := JInt 1\<rparr>)) (JInt 1) = Inr None"
    by (simp add: pydict_get_def initial_state_def)
  have 4: "pydict_get (diffs (initial_state\<lparr>project_root := ''/p'', active_step_id := JInt 1\<rparr>)) (JInt 1) = Inr None"
    by (simp add: pydict_get_def initial_state_def)
  from approve_without_diff[OF 1 2 3 4] show ?thesis by simp
qed










lemma plan_local_busy: "bg_running s \<Longrightarrow> rejected s dk (plan_local g s dk)"
  by (simp add: plan_local_def rejected_def redirect_def flash_def Let_def)

lemma patch_local_busy: "bg_running s \<Longrightarrow> rejected s dk (patch_local s dk)"
  by (auto simp: patch_local_def rejected_def redirect_def raise_def flash_def
           split: sum.splits option.splits)

lemma refine_busy: "bg_running s \<Longrightarrow> rejected s dk (refine_patch_route s dk)"
  by (auto simp: refine_patch_route_def rejected_def redirect_def raise_def flash_def
           split: sum.splits option.splits)

lemma run_all_busy: "bg_running s \<Longrightarrow> rejected s dk (run_all s dk)"
  by (auto simp: run_all_def rejected_def redirect_def raise_def flash_def load_plan_def
           split: sum.splits option.splits)

lemma handle_busy: "bg_running s \<Longrightarrow> rejected s dk (handle r s dk)"
  by (cases r) (simp_all add: plan_local_busy patch_local_busy refine_busy run_all_busy)

lemma plan_local_flag:
  "(case started (plan_local g s dk) of
      None \<Rightarrow> bg_running (new_state (plan_local g s dk)) = bg_running s
    | Some j \<Rightarrow> \<not> bg_running s \<and> bg_running (new_state (plan_local g s dk)))"
  by (simp add: plan_local_def redirect_def spawn_def flash_def Let_def)

lemma patch_local_flag:
  "(case started (patch_local s dk) of
      None \<Rightarrow> bg_running (new_state (patch_local s dk)) = bg_running s
    | Some j \<Rightarrow> \<not> bg_running s \<and> bg_running (new_state (patch_local s dk)))"
proof (cases "active_step s dk")
  case (Inl e)
  then show ?thesis by (simp add: patch_local_def raise_def)
next
  case (Inr found)
  show ?thesis
  proof (cases found)
    case None
    with Inr show ?thesis by (simp add: patch_local_def redirect_def flash_def)
  next
    case (Some step)
    with Inr active_step_Some[of s dk step] obtain v where "getitem step ''id'' = Inr v"
      by blast
    with Inr Some show ?thesis
      by (simp add: patch_local_def redirect_def spawn_def flash_def)
  qed
qed

lemma refine_flag:
  "(case started (refine_patch_route s dk) of
      None \<Rightarrow> bg_running (new_state (refine_patch_route s dk)) = bg_running s
    | Some j \<Rightarrow> \<not> bg_running s \<and> bg_running (new_state (refine_patch_route s dk)))"
  by (auto simp: refine_patch_route_def redirect_def raise_def spawn_def flash_def Let_def
           split: sum.splits option.splits)

lemma run_all_flag:
  "(case started (run_all s dk) of
      None \<Rightarrow> bg_running (new_state (run_all s dk)) = bg_running s
    | Some j \<Rightarrow> \<not> bg_running s \<and> bg_running (new_state (run_all s dk)))"
  by (auto simp: run_all_def redirect_def raise_def spawn_def flash_def
           split: sum.splits option.splits)

lemma handle_flag:
  "(case started (handle r s dk) of
      None \<Rightarrow> bg_running (new_state (handle r s dk)) = bg_running s
    | Some j \<Rightarrow> \<not> bg_running s \<and> bg_running (new_state (handle r s dk)))"
proof (cases r)
  case (PlanLocal g)
  show ?thesis unfolding PlanLocal handle.simps by (rule plan_local_flag)
next
  case PatchLocal
  show ?thesis unfolding PatchLocal handle.simps by (rule patch_local_flag)
next
  case RefinePatch
  show ?thesis unfolding RefinePatch handle.simps by (rule refine_flag)
next
  case RunAll
  show ?thesis unfolding RunAll handle.simps by (rule run_all_flag)
qed

lemma in_flight_invariant:
  "reachable s dk js \<Longrightarrow> length js \<le> 1 \<and> (bg_running s \<longleftrightarrow> js \<noteq> [])"
proof (induction rule: reachable.induct)
  case (boot s dk)
  then show ?case by simp
next
  case (request s dk js r out)
  from handle_flag[of r s dk] request show ?case
    by (cases "started out") auto
next
  case (mutate s dk js s' dk')
  then show ?case by simp
next
  case (finish s dk js j)
  then have "js = [j]" by (cases js) auto
  then show ?case by simp
qed

text \<open>
  C8.  In every reachable configuration at most one worker thread is in flight, and
  while \<open>bg_running\<close> is set each of the four requests is rejected: no thread is
  started and nothing but the flashed error changes.
\<close>

theorem single_writer:
  assumes "reachable s dk js"
  shows "length js \<le> 1 \<and> (bg_running s \<longrightarrow> rejected s dk (handle r s dk))"
  using in_flight_invariant[OF assms] handle_busy by blast

theorem single_writer_witness:
  "reachable (initial_state\<lparr>goal := ''g'', bg_running := True, bg_label := PlanLabel\<rparr>)
      None [PlanJob ''g'']
   \<and> length [PlanJob ''g''] \<le> 1
   \<and> rejected (initial_state\<lparr>goal := ''g'', bg_running := True, bg_label := PlanLabel\<rparr>)
        None
        (handle RunAll
           (initial_state\<lparr>goal := ''g'', bg_running := True, bg_label := PlanLabel\<rparr>) None)"
proof -
  have b: "reachable initial_state None []"
    by (rule reachable.boot) (simp add: initial_state_def)
  have h: "handle (PlanLocal ''g'') initial_state None =
      spawn (PlanJob ''g'')
        (initial_state\<lparr>goal := ''g'', bg_running := True, bg_label := PlanLabel\<rparr>) None"
    by (simp add: plan_local_def strip_def lstrip_def rstrip_def py_isspace_def
          initial_state_def Let_def)
  from reachable.request[OF b h]
  have r: "reachable (initial_state\<lparr>goal := ''g'', bg_running := True, bg_label := PlanLabel\<rparr>)
      None [PlanJob ''g'']"
    by (simp add: spawn_def)
  have f: "bg_running (initial_state\<lparr>goal := ''g'', bg_running := True, bg_label := PlanLabel\<rparr>)"
    by simp
  from single_writer[OF r, of RunAll] f r show ?thesis by simp
qed


section \<open>Properties of the patch applier\<close>

text \<open>
  C2.  The code does not do what the claim says when the cursor leaves the file
  without a context line being read there.
  \<^item> The hunk \<open>@@ -5,1 +5,1 @@\<close> with the body \<open>-x\<close>, \<open>+y\<close> is applied to the one-line
    file \<open>f\<close>.  The cursor starts at index 4, past the only line; the slice
    \<open>lines[0:4]\<close> is clipped, the removed line only moves the cursor, and no
    \<open>IndexError\<close> is raised.  No error is recorded, \<open>f\<close> is reported as applied and is
    rewritten, with the line \<open>y\<close> appended.
  \<^item> The hunk \<open>@@ -0,1 +0,1 @@\<close> with one context line is applied to the two-line file
    \<open>f\<close>.  The cursor starts at index \<open>-1\<close>; \<open>lines[-1]\<close> is the last line, so no
    \<open>IndexError\<close> is raised; \<open>f\<close> is reported as applied and holds its lines twice.
\<close>

theorem python_fallback_failing_inputs:
  "apply_hunks [''a\<newline>''] [(''5'', ''-x\<newline>+y'')] 0 [] = Inr [''a\<newline>'', ''y'']
   \<and> fst (apply_patch_python id ''p''
        [''p'' \<mapsto> Text ''--- a/f\<newline>+++ b/f\<newline>@@ -5,1 +5,1 @@\<newline>-x\<newline>+y\<newline>'',
         ''f'' \<mapsto> Text ''a\<newline>''])
      = Inr (True, PatchAppliedTo [''f''])
   \<and> snd (apply_patch_python id ''p''
        [''p'' \<mapsto> Text ''--- a/f\<newline>+++ b/f\<newline>@@ -5,1 +5,1 @@\<newline>-x\<newline>+y\<newline>'',
         ''f'' \<mapsto> Text ''a\<newline>'']) ''f''
      = Some (Text ''a\<newline>y'')
   \<and> apply_hunks [''a\<newline>'', ''b\<newline>''] [(''0'', '' c'')] 0 []
      = Inr [''a\<newline>'', ''b\<newline>'', ''a\<newline>'', ''b\<newline>'']
   \<and> fst (apply_patch_python id ''p''
        [''p'' \<mapsto> Text ''--- a/f\<newline>+++ b/f\<newline>@@ -0,1 +0,1 @@\<newline> c\<newline>'',
         ''f'' \<mapsto> Text ''a\<newline>b\<newline>''])
      = Inr (True, PatchAppliedTo [''f''])
   \<and> snd (apply_patch_python id ''p''
        [''p'' \<mapsto> Text ''--- a/f\<newline>+++ b/f\<newline>@@ -0,1 +0,1 @@\<newline> c\<newline>'',
         ''f'' \<mapsto> Text ''a\<newline>b\<newline>'']) ''f''
      = Some (Text ''a\<newline>b\<newline>a\<newline>b\<newline>'')"
proof (intro conjI)
  show "apply_hunks [''a\<newline>''] [(''5'', ''-x\<newline>+y'')] 0 [] = Inr [''a\<newline>'', ''y'']"
    by code_simp
  show "fst (apply_patch_python id ''p''
        [''p'' \<mapsto> Text ''--- a/f\<newline>+++ b/f\<newline>@@ -5,1 +5,1 @@\<newline>-x\<newline>+y\<newline>'',
         ''f'' \<mapsto> Text ''a\<newline>''])
      = Inr (True, PatchAppliedTo [''f''])"
    by code_simp
  show "snd (apply_patch_python id ''p''
        [''p'' \<mapsto> Text ''--- a/f\<newline>+++ b/f\<newline>@@ -5,1 +5,1 @@\<newline>-x\<newline>+y\<newline>'',
         ''f'' \<mapsto> Text ''a\<newline>'']) ''f''
      = Some (Text ''a\<newline>y'')"
    by code_simp
  show "apply_hunks [''a\<newline>'', ''b\<newline>''] [(''0'', '' c'')] 0 []
      = Inr [''a\<newline>'', ''b\<newline>'', ''a\<newline>'', ''b\<newline>'']"
    by code_simp
  show "fst (apply_patch_python id ''p''
        [''p'' \<mapsto> Text ''--- a/f\<newline>+++ b/f\<newline>@@ -0,1 +0,1 @@\<newline> c\<newline>'',
         ''f'' \<mapsto> Text ''a\<newline>b\<newline>''])
      = Inr (True, PatchAppliedTo [''f''])"
    by code_simp
  show "snd (apply_patch_python id ''p''
        [''p'' \<mapsto> Text ''--- a/f\<newline>+++ b/f\<newline>@@ -0,1 +0,1 @@\<newline> c\<newline>'',
         ''f'' \<mapsto> Text ''a\<newline>b\<newline>'']) ''f''
      = Some (Text ''a\<newline>b\<newline>a\<newline>b\<newline>'')"
    by code_simp
qed

text \<open>
  C5.  The code does not do what the claim says on two patches of two file blocks for
  the one-line files \<open>A\<close> and \<open>B\<close>, the block of \<open>A\<close> fitting in both.
  \<^item> The hunk of \<open>B\<close> starts at line 5, past the end of \<open>B\<close>, and its body is a removed
    line and an added line: no error is recorded for \<open>B\<close>, the result is a success that
    names \<open>A\<close> and \<open>B\<close>, and \<open>B\<close> is rewritten.  (With a context line in place of the
    removed line the error is recorded and the result is the failure that reports
    \<open>B\<close>, as the claim says.)
  \<^item> \<open>B\<close> cannot be read: \<open>OSError\<close> leaves the function after \<open>A\<close> has been
    written, and there is no result at all.
\<close>

theorem python_applier_failing_inputs:
  "fst (apply_patch_python id ''p'' (two_files(''p'' \<mapsto> Text two_file_patch_removing)))
      = Inr (True, PatchAppliedTo [''A'', ''B''])
   \<and> snd (apply_patch_python id ''p'' (two_files(''p'' \<mapsto> Text two_file_patch_removing))) ''B''
      = Some (Text ''x\<newline>y'')
   \<and> fst (apply_patch_python id ''p'' (two_files(''p'' \<mapsto> Text two_file_patch)))
      = Inr (False, PatchErrors [''B''])
   \<and> snd (apply_patch_python id ''p'' (two_files(''p'' \<mapsto> Text two_file_patch))) ''A''
      = Some (Text ''a\<newline>b'')
   \<and> snd (apply_patch_python id ''p'' (two_files(''p'' \<mapsto> Text two_file_patch))) ''B''
      = Some (Text ''x\<newline>'')
   \<and> fst (apply_patch_python id ''p''
          (two_files(''B'' \<mapsto> NoRead, ''p'' \<mapsto> Text two_file_patch)))
      = Inl OSError
   \<and> snd (apply_patch_python id ''p''
          (two_files(''B'' \<mapsto> NoRead, ''p'' \<mapsto> Text two_file_patch))) ''A''
      = Some (Text ''a\<newline>b'')"
proof (intro conjI)
  show "fst (apply_patch_python id ''p'' (two_files(''p'' \<mapsto> Text two_file_patch_removing)))
      = Inr (True, PatchAppliedTo [''A'', ''B''])"
    by code_simp
  show "snd (apply_patch_python id ''p'' (two_files(''p'' \<mapsto> Text two_file_patch_removing))) ''B''
      = Some (Text ''x\<newline>y'')"
    by code_simp
  show "fst (apply_patch_python id ''p'' (two_files(''p'' \<mapsto> Text two_file_patch)))
      = Inr (False, PatchErrors [''B''])"
    by code_simp
  show "snd (apply_patch_python id ''p'' (two_files(''p'' \<mapsto> Text two_file_patch))) ''A''
      = Some (Text ''a\<newline>b'')"
    by code_simp
  show "snd (apply_patch_python id ''p'' (two_files(''p'' \<mapsto> Text two_file_patch))) ''B''
      = Some (Text ''x\<newline>'')"
    by code_simp
  show "fst (apply_patch_python id ''p''
          (two_files(''B'' \<mapsto> NoRead, ''p'' \<mapsto> Text two_file_patch)))
      = Inl OSError"
    by code_simp
  show "snd (apply_patch_python id ''p''
          (two_files(''B'' \<mapsto> NoRead, ''p'' \<mapsto> Text two_file_patch))) ''A''
      = Some (Text ''a\<newline>b'')"
    by code_simp
qed


section \<open>Properties of the review parser\<close>

lemma heuristic_verdict:
  "heuristic_review raw_text = Inr r \<Longrightarrow> verdict r \<in> {''approve'', ''concerns'', ''reject''}"
  by (auto simp: heuristic_review_def Let_def split: option.splits list.splits if_splits)

lemma json_verdict:
  "json_review repr raw_text data = Inr r \<Longrightarrow>
     verdict r \<in> {''approve'', ''concerns'', ''reject''} \<and> (\<forall>i \<in> set (issues r). i \<noteq> [])"
  by (auto simp: json_review_def Let_def split: sum.splits if_splits)

text \<open>Whenever \<open>_parse_review\<close> returns, the verdict is one of the three.\<close>

lemma parse_review_verdict:
  "parse_review loads repr raw_text = Inr r \<Longrightarrow>
     verdict r \<in> {''approve'', ''concerns'', ''reject''}"
  by (auto simp: parse_review_def Let_def dest: heuristic_verdict json_verdict
           split: option.splits sum.splits py_error.splits if_splits)

text \<open>
  C9.  The code does not do what the claim says on two inputs, whatever \<open>json.loads\<close>
  does.  On the empty output \<open>_parse_review\<close> raises \<open>IndexError\<close>
  (\<open>raw.splitlines()[0]\<close> of an empty list) and yields no review.  On a line of five
  dashes the fallback returns a review whose list of issues holds the empty string.
\<close>

theorem parse_review_failing_inputs:
  "parse_review loads repr [] = Inl IndexError
   \<and> parse_review loads repr ''-----'' =
       Inr \<lparr>verdict = ''concerns'', summary = ''-----'', issues = [[]],
            review_notes = [], raw = ''-----''\<rparr>"
proof
  show "parse_review loads repr [] = Inl IndexError"
    by (simp add: parse_review_def strip_def lstrip_def rstrip_def startswith_def
          brace_search_def heuristic_review_def splitlines_def)
  show "parse_review loads repr ''-----'' =
       Inr \<lparr>verdict = ''concerns'', summary = ''-----'', issues = [[]],
            review_notes = [], raw = ''-----''\<rparr>"
    by code_simp
qed


section \<open>Properties of the sanitizer\<close>

text \<open>
  C3.  The code does not do what the claim says on two inputs.
  \<^item> The hunk removes the line \<open>-- old comment\<close>, so its body holds the line
    \<open>--- old comment\<close>.  The header \<open>@@ -1,3 +1,2 @@\<close> is right: the body has two
    context lines and one removed line.  The sanitizer ends the body at a line that
    starts with \<open>--- \<close>, counts the one context line before it, and rewrites the header
    to \<open>@@ -1,1 +1,1 @@\<close>.  For the applier the body of the hunk in the sanitized text
    is still the three lines, with the counts 3 and 2.
  \<^item> The refiner's answer is a fenced diff with three empty lines before the closing
    fence.  The extractor returns the diff with two empty lines at its end, and each
    pass of the sanitizer removes one of them: the second pass does not return what the
    first returned.
\<close>

theorem sanitize_failing_inputs:
  "sanitize_diff ''--- a/q.sql\<newline>+++ b/q.sql\<newline>@@ -1,3 +1,2 @@\<newline> a\<newline>--- old comment\<newline> b\<newline>''
     = ''--- a/q.sql\<newline>+++ b/q.sql\<newline>@@ -1,1 +1,1 @@\<newline> a\<newline>--- old comment\<newline> b\<newline>''
   \<and> find_hunks (readlines
        ''--- a/q.sql\<newline>+++ b/q.sql\<newline>@@ -1,1 +1,1 @@\<newline> a\<newline>--- old comment\<newline> b\<newline>'')
     = [(''1'', '' a\<newline>--- old comment\<newline> b\<newline>'')]
   \<and> orig_count (splitlines '' a\<newline>--- old comment\<newline> b\<newline>'') = 3
   \<and> new_count (splitlines '' a\<newline>--- old comment\<newline> b\<newline>'') = 2
   \<and> extract_diff
        ''```\<newline>--- a/f\<newline>+++ b/f\<newline>@@ -1 +1 @@\<newline>-x\<newline>+y\<newline>\<newline>\<newline>\<newline>```''
     = Some ''--- a/f\<newline>+++ b/f\<newline>@@ -1 +1 @@\<newline>-x\<newline>+y\<newline>\<newline>\<newline>''
   \<and> sanitize_diff ''--- a/f\<newline>+++ b/f\<newline>@@ -1 +1 @@\<newline>-x\<newline>+y\<newline>\<newline>\<newline>''
     = ''--- a/f\<newline>+++ b/f\<newline>@@ -1,1 +1,1 @@\<newline>-x\<newline>+y\<newline>\<newline>''
   \<and> sanitize_diff ''--- a/f\<newline>+++ b/f\<newline>@@ -1,1 +1,1 @@\<newline>-x\<newline>+y\<newline>\<newline>''
     = ''--- a/f\<newline>+++ b/f\<newline>@@ -1,1 +1,1 @@\<newline>-x\<newline>+y\<newline>''"
proof (intro conjI)
  show "sanitize_diff ''--- a/q.sql\<newline>+++ b/q.sql\<newline>@@ -1,3 +1,2 @@\<newline> a\<newline>--- old comment\<newline> b\<newline>''
     = ''--- a/q.sql\<newline>+++ b/q.sql\<newline>@@ -1,1 +1,1 @@\<newline> a\<newline>--- old comment\<newline> b\<newline>''"
    by code_simp
  show "find_hunks (readlines
        ''--- a/q.sql\<newline>+++ b/q.sql\<newline>@@ -1,1 +1,1 @@\<newline> a\<newline>--- old comment\<newline> b\<newline>'')
     = [(''1'', '' a\<newline>--- old comment\<newline> b\<newline>'')]"
    by code_simp
  show "orig_count (splitlines '' a\<newline>--- old comment\<newline> b\<newline>'') = 3"
    by code_simp
  show "new_count (splitlines '' a\<newline>--- old comment\<newline> b\<newline>'') = 2"
    by code_simp
  show "extract_diff
        ''```\<newline>--- a/f\<newline>+++ b/f\<newline>@@ -1 +1 @@\<newline>-x\<newline>+y\<newline>\<newline>\<newline>\<newline>```''
     = Some ''--- a/f\<newline>+++ b/f\<newline>@@ -1 +1 @@\<newline>-x\<newline>+y\<newline>\<newline>\<newline>''"
    by code_simp
  show "sanitize_diff ''--- a/f\<newline>+++ b/f\<newline>@@ -1 +1 @@\<newline>-x\<newline>+y\<newline>\<newline>\<newline>''
     = ''--- a/f\<newline>+++ b/f\<newline>@@ -1,1 +1,1 @@\<newline>-x\<newline>+y\<newline>\<newline>''"
    by code_simp
  show "sanitize_diff ''--- a/f\<newline>+++ b/f\<newline>@@ -1,1 +1,1 @@\<newline>-x\<newline>+y\<newline>\<newline>''
     = ''--- a/f\<newline>+++ b/f\<newline>@@ -1,1 +1,1 @@\<newline>-x\<newline>+y\<newline>''"
    by code_simp
qed


section \<open>Properties of the extractor\<close>








lemma not_space_simps [simp]: "\<not> py_isspace CHR ''-''" "\<not> py_isspace CHR ''a''"
  "py_isspace CHR '' ''"
  by (simp_all add: py_isspace_def)



























end
